theory Spec2Isabelle
  imports Main "HOL-Library.AList"
begin

section \<open>Values and exceptions\<close>

text \<open>
  The coordinator of \<^verbatim>\<open>custom_components/eufy_security/coordinator.py\<close> works on parsed
  JSON: the payload of an inbound message, the live snapshot \<^verbatim>\<open>self.data["data"]\<close> and the
  values of the property cache. A JSON object is a Python \<^verbatim>\<open>dict\<close> with string keys; it is
  kept as an association list in insertion order. JSON numbers are restricted to integers.
\<close>

datatype json =
    JNull
  | JBool bool
  | JInt int
  | JStr string
  | JArr "json list"
  | JObj "(string \<times> json) list"

text \<open>
  The exceptions the coordinator can raise. \<open>KeyError k\<close>, \<open>TypeError\<close> and
  \<open>AttributeError\<close> are raised by the Python runtime, \<open>Exception msg\<close> by the two
  \<^verbatim>\<open>raise Exception(...)\<close> statements, \<open>UpdateFailed cause\<close> by
  \<^verbatim>\<open>raise UpdateFailed() from exception\<close>; \<open>TransportError\<close> stands for whatever
  exception the websocket object raises, \<open>CancelledError\<close> is
  \<^verbatim>\<open>asyncio.CancelledError\<close>, raised at an \<^verbatim>\<open>await\<close> in a task that its host cancels.
  \<open>NotModelled\<close> is no exception of Python: it is the result of the model on the inputs
  it leaves out, which are named where it appears.
\<close>

datatype exn =
    KeyError string
  | TypeError
  | IndexError
  | ValueError
  | AttributeError string
  | TransportError string
  | Exception string
  | UpdateFailed exn
  | CancelledError
  | NotModelled

text \<open>
  \<^verbatim>\<open>except Exception\<close> catches the subclasses of \<^verbatim>\<open>Exception\<close>.
  \<^verbatim>\<open>asyncio.CancelledError\<close> is a \<^verbatim>\<open>BaseException\<close> only and is not caught.
\<close>

fun is_Exception :: "exn \<Rightarrow> bool" where
  "is_Exception CancelledError = False"
| "is_Exception _ = True"

datatype 'a outcome = Raise exn | Return 'a

section \<open>The coordinator object\<close>

text \<open>\<^verbatim>\<open>self.data\<close>: the dictionary with the two keys \<^verbatim>\<open>"cache"\<close> and \<^verbatim>\<open>"data"\<close>.\<close>

record data_dict =
  d_cache :: "(string \<times> (string \<times> json) list) list"
  d_data :: json

text \<open>
  The attributes set by \<^verbatim>\<open>__init__\<close>. \<open>'w\<close> is the websocket object (\<open>None\<close> until
  \<^verbatim>\<open>initialize_ws\<close> runs). \<open>updated\<close> records the arguments of the calls of the
  framework's \<^verbatim>\<open>async_set_updated_data\<close>, oldest first.
\<close>

record 'w coordinator =
  ws :: "'w option"
  host :: string
  port :: int
  data :: data_dict
  start_listening_state :: bool
  poll_refresing_state :: bool
  updated :: "data_dict list"

definition init :: "string \<Rightarrow> int \<Rightarrow> 'w coordinator" where
  "init h p =
     \<lparr> ws = None, host = h, port = p,
       data = \<lparr> d_cache = [], d_data = JObj [] \<rparr>,
       start_listening_state = False,
       poll_refresing_state = False,
       updated = [] \<rparr>"

section \<open>Waiting for a flag\<close>

text \<open>
  \<^verbatim>\<open>await asyncio.sleep(1)\<close> suspends the waiting task, and the other tasks of the event loop
  run: the websocket's callbacks and other calls of the coordinator. A schedule \<open>sleep\<close> gives
  what they do to the coordinator during each sleep of a wait, numbered from 0. The
  \<^verbatim>\<open>asyncio.Lock()\<close> of the flag functions is created by the call that takes it, so it is
  never contended and has no effect.
\<close>

type_synonym 'w schedule = "nat \<Rightarrow> 'w coordinator \<Rightarrow> 'w coordinator"

definition set_start_listening_state :: "bool \<Rightarrow> 'w coordinator \<Rightarrow> 'w coordinator" where
  "set_start_listening_state v c = c\<lparr>start_listening_state := v\<rparr>"

definition set_poll_refreshing_state :: "bool \<Rightarrow> 'w coordinator \<Rightarrow> 'w coordinator" where
  "set_poll_refreshing_state v c = c\<lparr>poll_refresing_state := v\<rparr>"

text \<open>
  The \<^verbatim>\<open>while\<close> loop of \<^verbatim>\<open>check_if_started_listening\<close>, from the value \<open>counter\<close> of its
  local variable. It returns the result of the call, the final value of \<open>counter\<close> (the
  number of sleeps, which is the number of times the loop condition was found true) and the
  coordinator as the other tasks left it.
\<close>

function started_listening_loop ::
  "'w schedule \<Rightarrow> bool \<Rightarrow> nat \<Rightarrow> 'w coordinator \<Rightarrow> bool \<times> nat \<times> 'w coordinator" where
  "started_listening_loop sleep to_be_value counter c =
     (if start_listening_state c \<noteq> to_be_value then
        (if counter + 1 > 5 then (False, counter + 1, sleep counter c)
         else started_listening_loop sleep to_be_value (counter + 1) (sleep counter c))
      else (True, counter, c))"
  by pat_completeness auto
termination
  by (relation "measure (\<lambda>(sleep, to_be_value, counter, c). 6 - counter)") auto

definition check_if_started_listening ::
  "'w schedule \<Rightarrow> bool \<Rightarrow> 'w coordinator \<Rightarrow> bool \<times> 'w coordinator" where
  "check_if_started_listening sleep to_be_value c =
     (case started_listening_loop sleep to_be_value 0 c of (r, counter, c') \<Rightarrow> (r, c'))"

text \<open>The same loop in \<^verbatim>\<open>check_if_poll_refreshed\<close>, on the other flag.\<close>

function poll_refreshed_loop ::
  "'w schedule \<Rightarrow> bool \<Rightarrow> nat \<Rightarrow> 'w coordinator \<Rightarrow> bool \<times> nat \<times> 'w coordinator" where
  "poll_refreshed_loop sleep to_be_value counter c =
     (if poll_refresing_state c \<noteq> to_be_value then
        (if counter + 1 > 5 then (False, counter + 1, sleep counter c)
         else poll_refreshed_loop sleep to_be_value (counter + 1) (sleep counter c))
      else (True, counter, c))"
  by pat_completeness auto
termination
  by (relation "measure (\<lambda>(sleep, to_be_value, counter, c). 6 - counter)") auto

definition check_if_poll_refreshed ::
  "'w schedule \<Rightarrow> bool \<Rightarrow> 'w coordinator \<Rightarrow> bool \<times> 'w coordinator" where
  "check_if_poll_refreshed sleep to_be_value c =
     (case poll_refreshed_loop sleep to_be_value 0 c of (r, counter, c') \<Rightarrow> (r, c'))"

text \<open>
  \<open>slept sleep n k c\<close>: the coordinator after the \<open>k\<close> sleeps numbered \<open>n\<close>, ...,
  \<open>n + k - 1\<close>, starting from \<open>c\<close>.
\<close>

primrec slept :: "'w schedule \<Rightarrow> nat \<Rightarrow> nat \<Rightarrow> 'w coordinator \<Rightarrow> 'w coordinator" where
  "slept sleep n 0 c = c"
| "slept sleep n (Suc k) c = slept sleep (Suc n) k (sleep n c)"

section \<open>Subscripts on JSON values\<close>

text \<open>
  \<open>getitem x k\<close> is \<^verbatim>\<open>x[k]\<close> for a string \<open>k\<close>: a \<^verbatim>\<open>KeyError\<close> on a dictionary
  without the key, a \<^verbatim>\<open>TypeError\<close> on every value that is not a dictionary (a list and a
  string take integer indices only; \<^verbatim>\<open>None\<close>, booleans and numbers take none).
  \<open>setitem x k v\<close> is \<^verbatim>\<open>x[k] = v\<close>: an existing key keeps its place, a new key goes to the
  end.
\<close>

fun getitem :: "json \<Rightarrow> string \<Rightarrow> exn + json" where
  "getitem (JObj kvs) k = (case map_of kvs k of None \<Rightarrow> Inl (KeyError k) | Some v \<Rightarrow> Inr v)"
| "getitem _ k = Inl TypeError"

fun setitem :: "json \<Rightarrow> string \<Rightarrow> json \<Rightarrow> exn + json" where
  "setitem (JObj kvs) k v = Inr (JObj (AList.update k v kvs))"
| "setitem _ k v = Inl TypeError"

section \<open>The state store\<close>

text \<open>
  \<^verbatim>\<open>set_cache_value_for_property\<close>. The annotations give \<open>serial_number\<close> and
  \<open>property_name\<close> as \<^verbatim>\<open>str\<close>; \<open>value\<close> is any value. \<^verbatim>\<open>value.replace("\x00", "")\<close>
  removes every NUL character of a string. The two statements that create the dictionary of
  the serial number when \<^verbatim>\<open>.get(serial_number, None) is None\<close> and then store the property
  in it are one update here: of the empty dictionary when the serial number is new, of the
  one in the cache otherwise. Nothing in the body can raise.
\<close>

definition set_cache_value_for_property ::
  "string \<Rightarrow> string \<Rightarrow> string \<Rightarrow> json \<Rightarrow> 'w coordinator \<Rightarrow> 'w coordinator" where
  "set_cache_value_for_property sources serial_number property_name val c =
     (let val1 = (case val of JStr s \<Rightarrow> JStr (filter (\<lambda>ch. ch \<noteq> CHR 0x00) s) | _ \<Rightarrow> val);
          props = (case map_of (d_cache (data c)) serial_number of
                     None \<Rightarrow> [] | Some m \<Rightarrow> m)
      in c\<lparr>data := (data c)\<lparr>d_cache :=
             AList.update serial_number (AList.update property_name val1 props)
               (d_cache (data c))\<rparr>\<rparr>)"

text \<open>
  The \<^verbatim>\<open>for entity in ...\<close> loop of \<^verbatim>\<open>set_data_value_for_property\<close> over a list: the
  first entity whose \<^verbatim>\<open>"serialNumber"\<close> equals the serial number gets the property and the
  loop breaks. The comparison is with a \<^verbatim>\<open>str\<close>, which only an equal \<^verbatim>\<open>str\<close> equals.
\<close>

fun for_entity :: "json list \<Rightarrow> string \<Rightarrow> string \<Rightarrow> json \<Rightarrow> exn + json list" where
  "for_entity [] serial_number property_name val = Inr []"
| "for_entity (entity # rest) serial_number property_name val =
     (case getitem entity ''serialNumber'' of
        Inl e \<Rightarrow> Inl e
      | Inr s \<Rightarrow>
          if s = JStr serial_number then
            (case setitem entity property_name val of
               Inl e \<Rightarrow> Inl e
             | Inr entity' \<Rightarrow> Inr (entity' # rest))
          else
            (case for_entity rest serial_number property_name val of
               Inl e \<Rightarrow> Inl e
             | Inr rest' \<Rightarrow> Inr (entity # rest')))"

text \<open>
  \<^verbatim>\<open>set_data_value_for_property\<close>. \<^verbatim>\<open>self.data["data"][sources]\<close> raises when the
  snapshot is not a dictionary or has no such collection. Iterating over a dictionary or a
  string gives strings, on which \<^verbatim>\<open>entity["serialNumber"]\<close> is a \<^verbatim>\<open>TypeError\<close>; the other
  values are not iterable.
\<close>

definition set_data_value_for_property ::
  "string \<Rightarrow> string \<Rightarrow> string \<Rightarrow> json \<Rightarrow> 'w coordinator \<Rightarrow> exn + 'w coordinator" where
  "set_data_value_for_property sources serial_number property_name val c =
     (case d_data (data c) of
        JObj snapshot \<Rightarrow>
          (case map_of snapshot sources of
             None \<Rightarrow> Inl (KeyError sources)
           | Some (JArr entities) \<Rightarrow>
               (case for_entity entities serial_number property_name val of
                  Inl e \<Rightarrow> Inl e
                | Inr entities' \<Rightarrow>
                    Inr (c\<lparr>data := (data c)\<lparr>d_data :=
                           JObj (AList.update sources (JArr entities') snapshot)\<rparr>\<rparr>))
           | Some (JObj kvs) \<Rightarrow> if kvs = [] then Inr c else Inl TypeError
           | Some (JStr s) \<Rightarrow> if s = [] then Inr c else Inl TypeError
           | Some _ \<Rightarrow> Inl TypeError)
      | _ \<Rightarrow> Inl TypeError)"

section \<open>The inbound dispatcher\<close>

text \<open>
  Modelled from the spec: the lists \<^verbatim>\<open>MESSAGE_TYPES_TO_PROCESS\<close> and
  \<^verbatim>\<open>MESSAGE_IDS_TO_PROCESS\<close> of \<^verbatim>\<open>const.py\<close>, which is not among the sources. Only the
  two types \<^verbatim>\<open>"result"\<close> and \<^verbatim>\<open>"event"\<close> are processed, and only the two message ids
  \<^verbatim>\<open>"start_listening"\<close> and \<^verbatim>\<open>"poll_refresh"\<close> are recognized.
\<close>

definition MESSAGE_TYPES_TO_PROCESS :: "string list" where
  "MESSAGE_TYPES_TO_PROCESS = [''result'', ''event'']"

definition MESSAGE_IDS_TO_PROCESS :: "string list" where
  "MESSAGE_IDS_TO_PROCESS = [''start_listening'', ''poll_refresh'']"

text \<open>
  An entry of the table \<^verbatim>\<open>EVENT_TYPE_CONFIGURATION\<close> of \<^verbatim>\<open>const.py\<close>: the keys
  \<^verbatim>\<open>"name"\<close>, \<^verbatim>\<open>"value"\<close> and \<^verbatim>\<open>"is_cached"\<close>. The table itself is a parameter of
  \<open>on_message\<close>.
\<close>

record event_cfg =
  cfg_name :: string
  cfg_value :: string
  cfg_is_cached :: bool

text \<open>A block of \<open>on_message\<close> either returns from the function or runs to its end.\<close>

datatype 'a flow = Returned 'a | Next 'a

definition async_set_updated_data :: "data_dict \<Rightarrow> 'w coordinator \<Rightarrow> 'w coordinator" where
  "async_set_updated_data d c = c\<lparr>data := d, updated := updated c @ [d]\<rparr>"

text \<open>
  The block \<^verbatim>\<open>if message_type == "result":\<close>. A message id that is not a string is not in
  the list of ids.
\<close>

definition result_block :: "json \<Rightarrow> json \<Rightarrow> 'w coordinator \<Rightarrow> exn + 'w coordinator flow" where
  "result_block payload message c =
     (case getitem payload ''messageId'' of
        Inl e \<Rightarrow> Inl e
      | Inr (JStr message_id) \<Rightarrow>
          if message_id \<notin> set MESSAGE_IDS_TO_PROCESS then Inr (Returned c)
          else
            (case (if message_id = ''start_listening'' then
                     (case getitem message ''state'' of
                        Inl e \<Rightarrow> Inl e
                      | Inr s \<Rightarrow>
                          Inr (set_start_listening_state True
                                 (c\<lparr>data := (data c)\<lparr>d_data := s\<rparr>\<rparr>)))
                   else Inr c) of
               Inl e \<Rightarrow> Inl e
             | Inr c1 \<Rightarrow>
                 if message_id = ''poll_refresh''
                 then Inr (Returned (set_poll_refreshing_state True c1))
                 else Inr (Next c1))
      | Inr _ \<Rightarrow> Inr (Returned c))"

text \<open>
  The block \<^verbatim>\<open>if message_type == "event":\<close>. \<^verbatim>\<open>message["source"] + "s"\<close> is a
  \<^verbatim>\<open>TypeError\<close> unless the source is a string. The test
  \<^verbatim>\<open>event_type in EVENT_TYPE_CONFIGURATION.keys()\<close> hashes the event type: a list or a
  dictionary is a \<^verbatim>\<open>TypeError\<close>, any other value that is not a string is not a key.
  The store functions are annotated with \<^verbatim>\<open>str\<close> for the serial number and the property
  name; an event that gives another kind of value for one of them is left out of the model.
\<close>

definition event_block ::
  "(string \<times> event_cfg) list \<Rightarrow> json \<Rightarrow> 'w coordinator \<Rightarrow> exn + 'w coordinator flow" where
  "event_block EVENT_TYPE_CONFIGURATION message c =
     (case getitem message ''event'' of
        Inl e \<Rightarrow> Inl e
      | Inr event_type \<Rightarrow>
     (case getitem message ''source'' of
        Inl e \<Rightarrow> Inl e
      | Inr (JStr source) \<Rightarrow>
     (let event_sources = source @ ''s'' in
     (case getitem message ''serialNumber'' of
        Inl e \<Rightarrow> Inl e
      | Inr event_serial_number \<Rightarrow>
     (case event_type of
        JArr _ \<Rightarrow> Inl TypeError
      | JObj _ \<Rightarrow> Inl TypeError
      | JStr event_name \<Rightarrow>
         (case map_of EVENT_TYPE_CONFIGURATION event_name of
            None \<Rightarrow> Inr (Returned c)
          | Some conf \<Rightarrow>
         (let event_property_name =
                (case getitem message ''name'' of
                   Inr n \<Rightarrow> n | Inl _ \<Rightarrow> JStr (cfg_name conf)) in
         (case getitem message (cfg_value conf) of
            Inl e \<Rightarrow> Inl e
          | Inr event_property_value \<Rightarrow>
         (case (event_serial_number, event_property_name) of
            (JStr serial_number, JStr property_name) \<Rightarrow>
              if cfg_is_cached conf = True then
                Inr (Next (set_cache_value_for_property event_sources
                  serial_number property_name event_property_value c))
              else
                (case set_data_value_for_property event_sources
                        serial_number property_name event_property_value c of
                   Inl e \<Rightarrow> Inl e
                 | Inr c1 \<Rightarrow> Inr (Next c1))
          | _ \<Rightarrow> Inl NotModelled))))
      | _ \<Rightarrow> Inr (Returned c))))
      | Inr _ \<Rightarrow> Inl TypeError))"

text \<open>
  \<open>on_message\<close>, from the parsed payload (\<^verbatim>\<open>message.json()\<close> belongs to the transport).
  A type that is not a string is not in the list of types. Every exception is raised
  before the coordinator is changed, so a raise leaves it as it was.
\<close>

definition on_message ::
  "(string \<times> event_cfg) list \<Rightarrow> json \<Rightarrow> 'w coordinator \<Rightarrow> exn + 'w coordinator" where
  "on_message EVENT_TYPE_CONFIGURATION payload c =
     (case getitem payload ''type'' of
        Inl e \<Rightarrow> Inl e
      | Inr (JStr message_type) \<Rightarrow>
          if message_type \<notin> set MESSAGE_TYPES_TO_PROCESS then Inr c
          else
            (case getitem payload message_type of
               Inl e \<Rightarrow> Inl e
             | Inr message \<Rightarrow>
            (case (if message_type = ''result'' then result_block payload message c
                   else Inr (Next c)) of
               Inl e \<Rightarrow> Inl e
             | Inr (Returned c1) \<Rightarrow> Inr c1
             | Inr (Next c1) \<Rightarrow>
            (case (if message_type = ''event''
                   then event_block EVENT_TYPE_CONFIGURATION message c1
                   else Inr (Next c1)) of
               Inl e \<Rightarrow> Inl e
             | Inr (Returned c2) \<Rightarrow> Inr c2
             | Inr (Next c2) \<Rightarrow> Inr (async_set_updated_data (data c2) c2))))
      | Inr _ \<Rightarrow> Inr c)"

definition on_close :: "'w coordinator \<Rightarrow> 'w coordinator" where
  "on_close c = set_start_listening_state False c"

definition on_error :: "json \<Rightarrow> 'w coordinator \<Rightarrow> 'w coordinator" where
  "on_error message c = set_start_listening_state False c"

section \<open>Outbound commands\<close>

text \<open>
  What \<^verbatim>\<open>send_message\<close> is given: the text \<^verbatim>\<open>json.dumps(message)\<close>, kept as the value
  it is the text of, or the dictionary itself.
\<close>

datatype outbound = Dumps json | Plain json

text \<open>
  The class \<^verbatim>\<open>EufySecurityWebSocket\<close> of \<^verbatim>\<open>websocket.py\<close>, which is not among the
  sources, is a parameter: its constructor (from the host and the port; the session and the
  callbacks are left out) and its two methods on the websocket object \<open>'w\<close>. A method
  returns the object after the call, or \<open>Inl\<close> with what the awaited call raised: an
  exception of the transport, with its text, or the cancellation of the task.
\<close>

datatype raised = Failed string | Cancelled

fun transport_exn :: "raised \<Rightarrow> exn" where
  "transport_exn (Failed r) = TransportError r"
| "transport_exn Cancelled = CancelledError"

record 'w websocket =
  EufySecurityWebSocket :: "string \<Rightarrow> int \<Rightarrow> 'w"
  set_ws :: "'w \<Rightarrow> raised + 'w"
  send_message :: "'w \<Rightarrow> outbound \<Rightarrow> raised + 'w"

text \<open>
  \<^verbatim>\<open>async_send_message\<close>: \<^verbatim>\<open>self.ws.send_message\<close> is an \<^verbatim>\<open>AttributeError\<close> while
  \<^verbatim>\<open>self.ws\<close> is \<^verbatim>\<open>None\<close>.
\<close>

definition async_send_message ::
  "'w websocket \<Rightarrow> outbound \<Rightarrow> 'w coordinator \<Rightarrow> unit outcome \<times> 'w coordinator" where
  "async_send_message tr message c =
     (case ws c of
        None \<Rightarrow> (Raise (AttributeError ''send_message''), c)
      | Some w \<Rightarrow>
          (case send_message tr w message of
             Inl r \<Rightarrow> (Raise (transport_exn r), c)
           | Inr w' \<Rightarrow> (Return (), c\<lparr>ws := Some w'\<rparr>)))"

text \<open>
  The constants \<^verbatim>\<open>START_LISTENING_MESSAGE\<close> and \<^verbatim>\<open>POLL_REFRESH_MESSAGE\<close> of
  \<^verbatim>\<open>const.py\<close> are parameters.
\<close>

definition async_start_listening ::
  "'w websocket \<Rightarrow> json \<Rightarrow> 'w coordinator \<Rightarrow> unit outcome \<times> 'w coordinator" where
  "async_start_listening tr START_LISTENING_MESSAGE c =
     async_send_message tr (Dumps START_LISTENING_MESSAGE) (set_start_listening_state False c)"

definition async_poll_refresh ::
  "'w websocket \<Rightarrow> json \<Rightarrow> 'w coordinator \<Rightarrow> unit outcome \<times> 'w coordinator" where
  "async_poll_refresh tr POLL_REFRESH_MESSAGE c =
     async_send_message tr (Dumps POLL_REFRESH_MESSAGE) (set_poll_refreshing_state False c)"

section \<open>The two entry points\<close>

text \<open>
  \<^verbatim>\<open>initialize_ws\<close>: a new websocket object, \<^verbatim>\<open>set_ws\<close>, the start-listening command,
  the wait. An exception of the transport goes to the caller as it is.
\<close>

definition initialize_ws ::
  "'w websocket \<Rightarrow> json \<Rightarrow> 'w schedule \<Rightarrow> 'w coordinator \<Rightarrow> unit outcome \<times> 'w coordinator"
  where
  "initialize_ws tr START_LISTENING_MESSAGE sleep c =
     (let w = EufySecurityWebSocket tr (host c) (port c);
          c0 = c\<lparr>ws := Some w\<rparr>
      in case set_ws tr w of
           Inl r \<Rightarrow> (Raise (transport_exn r), c0)
         | Inr w1 \<Rightarrow>
             (case async_start_listening tr START_LISTENING_MESSAGE (c0\<lparr>ws := Some w1\<rparr>) of
                (Raise e, c1) \<Rightarrow> (Raise e, c1)
              | (Return u, c1) \<Rightarrow>
                  (case check_if_started_listening sleep True c1 of
                     (r, c2) \<Rightarrow>
                       if r = False then
                         (Raise (Exception
                            ''Start Listening was not completed in timely manner''), c2)
                       else (Return (), c2))))"

text \<open>
  \<^verbatim>\<open>_async_update_data\<close>: an exception of the body that \<^verbatim>\<open>except Exception\<close>
  catches, one of the send as well as the one raised after the wait, is replaced by
  \<^verbatim>\<open>UpdateFailed\<close> with the exception as its cause; a cancellation at the awaited send is
  not caught and goes to the caller as it is. A cancellation during a sleep of the wait is
  not part of the model, in which a sleep always ends.
\<close>

definition async_update_data ::
  "'w websocket \<Rightarrow> json \<Rightarrow> 'w schedule \<Rightarrow> 'w coordinator
     \<Rightarrow> data_dict outcome \<times> 'w coordinator" where
  "async_update_data tr POLL_REFRESH_MESSAGE sleep c =
     (case async_poll_refresh tr POLL_REFRESH_MESSAGE c of
        (Raise e, c1) \<Rightarrow>
          if is_Exception e then (Raise (UpdateFailed e), c1) else (Raise e, c1)
      | (Return u, c1) \<Rightarrow>
          (case check_if_poll_refreshed sleep True c1 of
             (r, c2) \<Rightarrow>
               if r = False then
                 (Raise (UpdateFailed (Exception
                    ''Refresh Poll was not completed in timely manner'')), c2)
               else (Return (data c2), c2)))"

section \<open>Property requests\<close>

text \<open>
  Modelled from the spec: the enumeration \<^verbatim>\<open>DeviceType\<close> of \<^verbatim>\<open>generated.py\<close>, which is
  not among the sources. The target is a station or another device type: \<^verbatim>\<open>STATION\<close>
  and the other members, told apart by a number.
\<close>

datatype DeviceType = STATION | OTHER nat

fun get_device_type_name :: "DeviceType \<Rightarrow> string" where
  "get_device_type_name STATION = ''station''"
| "get_device_type_name _ = ''device''"

text \<open>
  \<^verbatim>\<open>template.format(arg)\<close> with one positional argument, a string. \<^verbatim>\<open>{{\<close> and \<^verbatim>\<open>}}\<close>
  are the two braces; \<^verbatim>\<open>{}\<close> is the next argument, so a second one is an
  \<^verbatim>\<open>IndexError\<close>; \<^verbatim>\<open>{0}\<close> is the argument; using both forms, a lone \<^verbatim>\<open>}\<close> and a
  \<^verbatim>\<open>{\<close> that is not closed are a \<^verbatim>\<open>ValueError\<close>. The other replacement fields (names,
  other indices, conversions, format specifications) are left out of the model.
\<close>

datatype numbering = Unset | Automatic | Manual

definition prepend :: "string \<Rightarrow> exn + string \<Rightarrow> exn + string" where
  "prepend s r = (case r of Inl e \<Rightarrow> Inl e | Inr t \<Rightarrow> Inr (s @ t))"

fun format_from :: "numbering \<Rightarrow> string \<Rightarrow> string \<Rightarrow> exn + string" where
  "format_from nb arg [] = Inr []"
| "format_from nb arg [ch] =
     (if ch = CHR ''{'' \<or> ch = CHR ''}'' then Inl ValueError else Inr [ch])"
| "format_from nb arg (ch # ch1 # rest) =
     (if ch = CHR ''{'' then
        (if ch1 = CHR ''{'' then prepend ''{'' (format_from nb arg rest)
         else if ch1 = CHR ''}'' then
           (case nb of
              Manual \<Rightarrow> Inl ValueError
            | Automatic \<Rightarrow> Inl IndexError
            | Unset \<Rightarrow> prepend arg (format_from Automatic arg rest))
         else if ch1 = CHR ''0'' then
           (case rest of
              [] \<Rightarrow> Inl ValueError
            | ch2 # rest2 \<Rightarrow>
                if ch2 = CHR ''}'' then
                  (case nb of
                     Automatic \<Rightarrow> Inl ValueError
                   | _ \<Rightarrow> prepend arg (format_from Manual arg rest2))
                else Inl NotModelled)
         else Inl NotModelled)
      else if ch = CHR ''}'' then
        (if ch1 = CHR ''}'' then prepend ''}'' (format_from nb arg rest)
         else Inl ValueError)
      else prepend [ch] (format_from nb arg (ch1 # rest)))"

definition str_format :: "string \<Rightarrow> string \<Rightarrow> exn + string" where
  "str_format template arg = format_from Unset arg template"

text \<open>
  \<^verbatim>\<open>GET_PROPERTIES_MESSAGE\<close> and \<^verbatim>\<open>GET_PROPERTIES_METADATA_MESSAGE\<close> are dictionaries of
  the module \<^verbatim>\<open>const.py\<close>. \<^verbatim>\<open>message = GET_PROPERTIES_MESSAGE\<close> binds the dictionary
  itself, not a copy, so the two assignments to \<^verbatim>\<open>message[...]\<close> change the module's
  dictionary: the functions take it and return it as it is after the call. The dictionary is
  sent as it is, without \<^verbatim>\<open>json.dumps\<close>. A command that is not a string has no
  \<^verbatim>\<open>format\<close>.
\<close>

definition async_get_properties_for_device ::
  "'w websocket \<Rightarrow> DeviceType \<Rightarrow> string \<Rightarrow> (string \<times> json) list \<Rightarrow> 'w coordinator
     \<Rightarrow> unit outcome \<times> (string \<times> json) list \<times> 'w coordinator" where
  "async_get_properties_for_device tr device_type serial_no GET_PROPERTIES_MESSAGE c =
     (let message = GET_PROPERTIES_MESSAGE in
      case map_of message ''command'' of
        None \<Rightarrow> (Raise (KeyError ''command''), message, c)
      | Some (JStr template) \<Rightarrow>
          (case str_format template (get_device_type_name device_type) of
             Inl e \<Rightarrow> (Raise e, message, c)
           | Inr command \<Rightarrow>
               (let message1 = AList.update ''command'' (JStr command) message;
                    message2 = AList.update ''serialNumber'' (JStr serial_no) message1
                in case async_send_message tr (Plain (JObj message2)) c of
                     (r, c') \<Rightarrow> (r, message2, c')))
      | Some _ \<Rightarrow> (Raise (AttributeError ''format''), message, c))"

definition async_get_properties_metadata_for_device ::
  "'w websocket \<Rightarrow> DeviceType \<Rightarrow> string \<Rightarrow> (string \<times> json) list \<Rightarrow> 'w coordinator
     \<Rightarrow> unit outcome \<times> (string \<times> json) list \<times> 'w coordinator" where
  "async_get_properties_metadata_for_device tr device_type serial_no
       GET_PROPERTIES_METADATA_MESSAGE c =
     (let message = GET_PROPERTIES_METADATA_MESSAGE in
      case map_of message ''command'' of
        None \<Rightarrow> (Raise (KeyError ''command''), message, c)
      | Some (JStr template) \<Rightarrow>
          (case str_format template (get_device_type_name device_type) of
             Inl e \<Rightarrow> (Raise e, message, c)
           | Inr command \<Rightarrow>
               (let message1 = AList.update ''command'' (JStr command) message;
                    message2 = AList.update ''serialNumber'' (JStr serial_no) message1
                in case async_send_message tr (Plain (JObj message2)) c of
                     (r, c') \<Rightarrow> (r, message2, c')))
      | Some _ \<Rightarrow> (Raise (AttributeError ''format''), message, c))"

text \<open>
  Modelled from the spec: the two dictionaries as \<^verbatim>\<open>const.py\<close> defines them, a command
  template whose device/station segment is substituted and a serial number.
\<close>

definition GET_PROPERTIES_MESSAGE :: "(string \<times> json) list" where
  "GET_PROPERTIES_MESSAGE =
     [(''command'', JStr ''{}.get_properties''), (''serialNumber'', JNull)]"

definition GET_PROPERTIES_METADATA_MESSAGE :: "(string \<times> json) list" where
  "GET_PROPERTIES_METADATA_MESSAGE =
     [(''command'', JStr ''{}.get_properties_metadata''), (''serialNumber'', JNull)]"

section \<open>Schedules and inputs of the examples\<close>

text \<open>
  Two schedules of the other tasks: the reply to the pending request arrives during the
  third sleep of the wait and sets both flags, or nothing arrives at all.
\<close>

definition reply_in_third_sleep :: "unit schedule" where
  "reply_in_third_sleep k c =
     (if k = 2 then set_poll_refreshing_state True (set_start_listening_state True c) else c)"

definition no_reply :: "unit schedule" where
  "no_reply k c = c"

text \<open>
  \<^verbatim>\<open>self.data["cache"][serial_number][property_name]\<close> as a reader finds it, \<open>None\<close>
  when the serial number or the property is not in the cache.
\<close>

definition cached :: "'w coordinator \<Rightarrow> string \<Rightarrow> string \<Rightarrow> json option" where
  "cached c serial_number property_name =
     (case map_of (d_cache (data c)) serial_number of
        None \<Rightarrow> None
      | Some props \<Rightarrow> map_of props property_name)"

text \<open>A coordinator whose snapshot has two cameras and one station.\<close>

definition two_cameras_devices :: "json list" where
  "two_cameras_devices =
     [JObj [(''serialNumber'', JStr ''D1''), (''name'', JStr ''Cam1'')],
      JObj [(''serialNumber'', JStr ''D2''), (''name'', JStr ''Cam2'')]]"

definition two_cameras_snapshot :: "(string \<times> json) list" where
  "two_cameras_snapshot =
     [(''devices'', JArr two_cameras_devices),
      (''stations'', JArr [JObj [(''serialNumber'', JStr ''S1'')]])]"

definition two_cameras :: "unit coordinator" where
  "two_cameras =
     (init ''eufy'' 3000)\<lparr>data := \<lparr> d_cache = [], d_data = JObj two_cameras_snapshot \<rparr>\<rparr>"

text \<open>A coordinator whose snapshot has the given list as its only collection.\<close>

definition with_devices :: "json list \<Rightarrow> unit coordinator" where
  "with_devices ds =
     (init ''eufy'' 3000)\<lparr>data := \<lparr> d_cache = [], d_data = JObj [(''devices'', JArr ds)] \<rparr>\<rparr>"

text \<open>
  A table \<^verbatim>\<open>EVENT_TYPE_CONFIGURATION\<close> with a live and a cached event type, and inbound
  payloads: the replies to the two commands, the reply to a failed command, a reply with
  another id, a message of another type, and events.
\<close>

definition example_configuration :: "(string \<times> event_cfg) list" where
  "example_configuration =
     [(''motion detected'',
         \<lparr> cfg_name = ''motionDetected'', cfg_value = ''state'', cfg_is_cached = False \<rparr>),
      (''got rtsp url'',
         \<lparr> cfg_name = ''rtspUrl'', cfg_value = ''rtspUrl'', cfg_is_cached = True \<rparr>)]"

definition start_listening_result :: json where
  "start_listening_result =
     JObj [(''type'', JStr ''result''), (''messageId'', JStr ''start_listening''),
           (''result'', JObj [(''state'', JObj [(''devices'',
              JArr [JObj [(''serialNumber'', JStr ''D1''), (''name'', JStr ''Cam1'')]])])])]"

definition poll_refresh_result :: json where
  "poll_refresh_result =
     JObj [(''type'', JStr ''result''), (''success'', JBool True),
           (''messageId'', JStr ''poll_refresh''), (''result'', JObj [])]"

definition poll_refresh_failure :: json where
  "poll_refresh_failure =
     JObj [(''type'', JStr ''result''), (''success'', JBool False),
           (''messageId'', JStr ''poll_refresh''), (''errorCode'', JStr ''unknown_error'')]"

definition unknown_id_result :: json where
  "unknown_id_result =
     JObj [(''type'', JStr ''result''), (''success'', JBool True),
           (''messageId'', JStr ''unknown_id''), (''result'', JObj [])]"

definition version_message :: json where
  "version_message = JObj [(''type'', JStr ''version''), (''serverVersion'', JStr ''1.0'')]"

definition event_message :: "string \<Rightarrow> string \<Rightarrow> (string \<times> json) list \<Rightarrow> json" where
  "event_message event_name source others =
     JObj [(''type'', JStr ''event''),
           (''event'', JObj ([(''source'', JStr source), (''event'', JStr event_name)] @ others))]"

text \<open>
  A websocket object that records what it is asked to send and refuses to send before
  \<^verbatim>\<open>set_ws\<close>; the two fixed commands; a schedule in which the transport delivers a payload
  to \<open>on_message\<close> during sleep \<open>n\<close> (an exception of \<open>on_message\<close> stays in the
  transport's task), and one in which nothing happens; a coordinator that is listening.
\<close>

record ws_log =
  connected :: bool
  sent :: "outbound list"

definition logging_websocket :: "ws_log websocket" where
  "logging_websocket =
     \<lparr> EufySecurityWebSocket = (\<lambda>h p. \<lparr> connected = False, sent = [] \<rparr>),
       set_ws = (\<lambda>w. Inr (w\<lparr>connected := True\<rparr>)),
       send_message = (\<lambda>w m. if connected w then Inr (w\<lparr>sent := sent w @ [m]\<rparr>)
                               else Inl (Failed ''not connected'')) \<rparr>"

definition start_listening_command :: json where
  "start_listening_command =
     JObj [(''messageId'', JStr ''start_listening''), (''command'', JStr ''start_listening'')]"

definition poll_refresh_command :: json where
  "poll_refresh_command =
     JObj [(''messageId'', JStr ''poll_refresh''), (''command'', JStr ''driver.poll_refresh'')]"

definition reply_arrives :: "json \<Rightarrow> nat \<Rightarrow> 'w schedule" where
  "reply_arrives payload n k c =
     (if k = n then
        (case on_message example_configuration payload c of Inr c' \<Rightarrow> c' | Inl e \<Rightarrow> c)
      else c)"

definition silence :: "'w schedule" where
  "silence k c = c"

definition listening :: "ws_log coordinator" where
  "listening =
     (init ''eufy'' 3000)\<lparr>ws := Some \<lparr> connected = True, sent = [] \<rparr>,
                           start_listening_state := True\<rparr>"

section \<open>The bounded wait\<close>

declare started_listening_loop.simps [simp del]
declare poll_refreshed_loop.simps [simp del]

lemma started_listening_hit:
  "n + k \<le> 5 \<Longrightarrow>
   (\<forall>j<k. start_listening_state (slept sleep n j c) \<noteq> t) \<Longrightarrow>
   start_listening_state (slept sleep n k c) = t \<Longrightarrow>
   started_listening_loop sleep t n c = (True, n + k, slept sleep n k c)"
proof (induction k arbitrary: n c)
  case 0
  then show ?case by (subst started_listening_loop.simps) simp
next
  case (Suc k)
  from Suc.prems(2) have now: "start_listening_state c \<noteq> t" by force
  have later: "\<forall>j<k. start_listening_state (slept sleep (Suc n) j (sleep n c)) \<noteq> t"
    using Suc.prems(2) by force
  have "started_listening_loop sleep t (Suc n) (sleep n c) =
          (True, Suc n + k, slept sleep (Suc n) k (sleep n c))"
    using Suc.prems(1,3) later by (intro Suc.IH) simp_all
  with now Suc.prems(1) show ?case
    by (subst started_listening_loop.simps) simp
qed

lemma started_listening_miss:
  "m = 5 - n \<Longrightarrow> n \<le> 5 \<Longrightarrow>
   (\<forall>j. n + j \<le> 5 \<longrightarrow> start_listening_state (slept sleep n j c) \<noteq> t) \<Longrightarrow>
   started_listening_loop sleep t n c = (False, 6, slept sleep n (6 - n) c)"
proof (induction m arbitrary: n c)
  case 0
  then have n: "n = 5" by simp
  from 0(2,3) have now: "start_listening_state c \<noteq> t"
    by (auto dest!: spec [where x = 0])
  have "6 - n = Suc 0" using n by simp
  with now n show ?case
    by (subst started_listening_loop.simps) simp
next
  case (Suc m)
  then have n: "n < 5" by simp
  from Suc.prems(2,3) have now: "start_listening_state c \<noteq> t"
    by (auto dest!: spec [where x = 0])
  have later: "\<forall>j. Suc n + j \<le> 5 \<longrightarrow>
      start_listening_state (slept sleep (Suc n) j (sleep n c)) \<noteq> t"
  proof (intro allI impI)
    fix j assume "Suc n + j \<le> 5"
    then have "n + Suc j \<le> 5" by simp
    with Suc.prems(3) have "start_listening_state (slept sleep n (Suc j) c) \<noteq> t" by blast
    then show "start_listening_state (slept sleep (Suc n) j (sleep n c)) \<noteq> t" by simp
  qed
  have ih: "started_listening_loop sleep t (Suc n) (sleep n c) =
          (False, 6, slept sleep (Suc n) (6 - Suc n) (sleep n c))"
    using Suc.prems(1) n later by (intro Suc.IH) simp_all
  have "6 - n = Suc (6 - Suc n)" using n by simp
  with now n ih show ?case
    by (subst started_listening_loop.simps) simp
qed

lemma poll_refreshed_hit:
  "n + k \<le> 5 \<Longrightarrow>
   (\<forall>j<k. poll_refresing_state (slept sleep n j c) \<noteq> t) \<Longrightarrow>
   poll_refresing_state (slept sleep n k c) = t \<Longrightarrow>
   poll_refreshed_loop sleep t n c = (True, n + k, slept sleep n k c)"
proof (induction k arbitrary: n c)
  case 0
  then show ?case by (subst poll_refreshed_loop.simps) simp
next
  case (Suc k)
  from Suc.prems(2) have now: "poll_refresing_state c \<noteq> t" by force
  have later: "\<forall>j<k. poll_refresing_state (slept sleep (Suc n) j (sleep n c)) \<noteq> t"
    using Suc.prems(2) by force
  have "poll_refreshed_loop sleep t (Suc n) (sleep n c) =
          (True, Suc n + k, slept sleep (Suc n) k (sleep n c))"
    using Suc.prems(1,3) later by (intro Suc.IH) simp_all
  with now Suc.prems(1) show ?case
    by (subst poll_refreshed_loop.simps) simp
qed

lemma poll_refreshed_miss:
  "m = 5 - n \<Longrightarrow> n \<le> 5 \<Longrightarrow>
   (\<forall>j. n + j \<le> 5 \<longrightarrow> poll_refresing_state (slept sleep n j c) \<noteq> t) \<Longrightarrow>
   poll_refreshed_loop sleep t n c = (False, 6, slept sleep n (6 - n) c)"
proof (induction m arbitrary: n c)
  case 0
  then have n: "n = 5" by simp
  from 0(2,3) have now: "poll_refresing_state c \<noteq> t"
    by (auto dest!: spec [where x = 0])
  have "6 - n = Suc 0" using n by simp
  with now n show ?case
    by (subst poll_refreshed_loop.simps) simp
next
  case (Suc m)
  then have n: "n < 5" by simp
  from Suc.prems(2,3) have now: "poll_refresing_state c \<noteq> t"
    by (auto dest!: spec [where x = 0])
  have later: "\<forall>j. Suc n + j \<le> 5 \<longrightarrow>
      poll_refresing_state (slept sleep (Suc n) j (sleep n c)) \<noteq> t"
  proof (intro allI impI)
    fix j assume "Suc n + j \<le> 5"
    then have "n + Suc j \<le> 5" by simp
    with Suc.prems(3) have "poll_refresing_state (slept sleep n (Suc j) c) \<noteq> t" by blast
    then show "poll_refresing_state (slept sleep (Suc n) j (sleep n c)) \<noteq> t" by simp
  qed
  have ih: "poll_refreshed_loop sleep t (Suc n) (sleep n c) =
          (False, 6, slept sleep (Suc n) (6 - Suc n) (sleep n c))"
    using Suc.prems(1) n later by (intro Suc.IH) simp_all
  have "6 - n = Suc (6 - Suc n)" using n by simp
  with now n ih show ?case
    by (subst poll_refreshed_loop.simps) simp
qed


text \<open>
  C1 (as amended). Both waits return \<open>True\<close> with no sleep when the flag already has the
  expected value; they return \<open>True\<close> at the first check that finds the expected value,
  after \<open>k\<close> sleeps, for every \<open>k\<close> up to 5; and when none of the six checks made
  after 0, 1, ..., 5 sleeps finds it, they return \<open>False\<close> after a sixth sleep, with
  \<open>counter = 6\<close>, not 5.
\<close>

theorem flag_wait_bound:
  "(start_listening_state c = t \<longrightarrow>
      started_listening_loop sleep t 0 c = (True, 0, c) \<and>
      check_if_started_listening sleep t c = (True, c)) \<and>
   (k \<le> 5 \<and> (\<forall>j<k. start_listening_state (slept sleep 0 j c) \<noteq> t) \<and>
      start_listening_state (slept sleep 0 k c) = t \<longrightarrow>
      started_listening_loop sleep t 0 c = (True, k, slept sleep 0 k c) \<and>
      check_if_started_listening sleep t c = (True, slept sleep 0 k c)) \<and>
   ((\<forall>j\<le>5. start_listening_state (slept sleep 0 j c) \<noteq> t) \<longrightarrow>
      started_listening_loop sleep t 0 c = (False, 6, slept sleep 0 6 c) \<and>
      check_if_started_listening sleep t c = (False, slept sleep 0 6 c)) \<and>
   (poll_refresing_state c = t \<longrightarrow>
      poll_refreshed_loop sleep t 0 c = (True, 0, c) \<and>
      check_if_poll_refreshed sleep t c = (True, c)) \<and>
   (k \<le> 5 \<and> (\<forall>j<k. poll_refresing_state (slept sleep 0 j c) \<noteq> t) \<and>
      poll_refresing_state (slept sleep 0 k c) = t \<longrightarrow>
      poll_refreshed_loop sleep t 0 c = (True, k, slept sleep 0 k c) \<and>
      check_if_poll_refreshed sleep t c = (True, slept sleep 0 k c)) \<and>
   ((\<forall>j\<le>5. poll_refresing_state (slept sleep 0 j c) \<noteq> t) \<longrightarrow>
      poll_refreshed_loop sleep t 0 c = (False, 6, slept sleep 0 6 c) \<and>
      check_if_poll_refreshed sleep t c = (False, slept sleep 0 6 c))"
proof -
  have s0: "start_listening_state c = t \<Longrightarrow>
      started_listening_loop sleep t 0 c = (True, 0, c)"
    by (subst started_listening_loop.simps) simp
  have s1: "k \<le> 5 \<Longrightarrow> \<forall>j<k. start_listening_state (slept sleep 0 j c) \<noteq> t \<Longrightarrow>
      start_listening_state (slept sleep 0 k c) = t \<Longrightarrow>
      started_listening_loop sleep t 0 c = (True, k, slept sleep 0 k c)"
    using started_listening_hit [of 0 k sleep c t] by simp
  have s2: "\<forall>j\<le>5. start_listening_state (slept sleep 0 j c) \<noteq> t \<Longrightarrow>
      started_listening_loop sleep t 0 c = (False, 6, slept sleep 0 6 c)"
    using started_listening_miss [of 5 0 sleep c t] by simp
  have p0: "poll_refresing_state c = t \<Longrightarrow>
      poll_refreshed_loop sleep t 0 c = (True, 0, c)"
    by (subst poll_refreshed_loop.simps) simp
  have p1: "k \<le> 5 \<Longrightarrow> \<forall>j<k. poll_refresing_state (slept sleep 0 j c) \<noteq> t \<Longrightarrow>
      poll_refresing_state (slept sleep 0 k c) = t \<Longrightarrow>
      poll_refreshed_loop sleep t 0 c = (True, k, slept sleep 0 k c)"
    using poll_refreshed_hit [of 0 k sleep c t] by simp
  have p2: "\<forall>j\<le>5. poll_refresing_state (slept sleep 0 j c) \<noteq> t \<Longrightarrow>
      poll_refreshed_loop sleep t 0 c = (False, 6, slept sleep 0 6 c)"
    using poll_refreshed_miss [of 5 0 sleep c t] by simp
  show ?thesis
    using s0 s1 s2 p0 p1 p2
    by (simp add: check_if_started_listening_def check_if_poll_refreshed_def)
qed

theorem flag_wait_bound_witness:
  "check_if_started_listening no_reply False (init ''eufy'' 3000) = (True, init ''eufy'' 3000) \<and>
   check_if_poll_refreshed no_reply False (init ''eufy'' 3000) = (True, init ''eufy'' 3000) \<and>
   started_listening_loop reply_in_third_sleep True 0 (init ''eufy'' 3000) =
     (True, 3, (init ''eufy'' 3000)
        \<lparr>start_listening_state := True, poll_refresing_state := True\<rparr>) \<and>
   poll_refreshed_loop reply_in_third_sleep True 0 (init ''eufy'' 3000) =
     (True, 3, (init ''eufy'' 3000)
        \<lparr>start_listening_state := True, poll_refresing_state := True\<rparr>) \<and>
   started_listening_loop no_reply True 0 (init ''eufy'' 3000) =
     (False, 6, init ''eufy'' 3000) \<and>
   poll_refreshed_loop no_reply True 0 (init ''eufy'' 3000) =
     (False, 6, init ''eufy'' 3000)"
proof -
  have sl: "slept reply_in_third_sleep 0 k c =
      (if 3 \<le> k then set_poll_refreshing_state True (set_start_listening_state True c) else c)"
    if "k \<le> 3" for k c
  proof -
    from that have "k = 0 \<or> k = 1 \<or> k = 2 \<or> k = 3" by arith
    then show ?thesis
      by (auto simp: reply_in_third_sleep_def numeral_2_eq_2 numeral_3_eq_3)
  qed
  have nr: "slept no_reply n k c = c" for n k c
    by (induction k arbitrary: n) (simp_all add: no_reply_def)
  have a: "check_if_started_listening no_reply False (init ''eufy'' 3000) =
      (True, init ''eufy'' 3000)"
    using flag_wait_bound [of "init ''eufy'' 3000" False no_reply 0]
    by (simp add: init_def)
  have b: "check_if_poll_refreshed no_reply False (init ''eufy'' 3000) =
      (True, init ''eufy'' 3000)"
    using flag_wait_bound [of "init ''eufy'' 3000" False no_reply 0]
    by (simp add: init_def)
  have c: "started_listening_loop reply_in_third_sleep True 0 (init ''eufy'' 3000) =
     (True, 3, (init ''eufy'' 3000)
        \<lparr>start_listening_state := True, poll_refresing_state := True\<rparr>) \<and>
   poll_refreshed_loop reply_in_third_sleep True 0 (init ''eufy'' 3000) =
     (True, 3, (init ''eufy'' 3000)
        \<lparr>start_listening_state := True, poll_refresing_state := True\<rparr>)"
    using flag_wait_bound [of "init ''eufy'' 3000" True reply_in_third_sleep 3]
    by (simp add: sl init_def set_poll_refreshing_state_def set_start_listening_state_def)
  have d: "started_listening_loop no_reply True 0 (init ''eufy'' 3000) =
     (False, 6, init ''eufy'' 3000) \<and>
   poll_refreshed_loop no_reply True 0 (init ''eufy'' 3000) =
     (False, 6, init ''eufy'' 3000)"
    using flag_wait_bound [of "init ''eufy'' 3000" True no_reply 0]
    by (simp add: nr init_def)
  from a b c d show ?thesis by simp
qed

text \<open>
  C1 as stated fails: with no reply at all, each wait returns \<open>False\<close> when its counter
  is 6, after six sleeps and six failed checks, not five.
\<close>

theorem flag_wait_five_polls_counterexample:
  "started_listening_loop (\<lambda>k c. c) True 0 (init ''eufy'' 3000 :: unit coordinator) =
     (False, 6, init ''eufy'' 3000) \<and>
   poll_refreshed_loop (\<lambda>k c. c) True 0 (init ''eufy'' 3000 :: unit coordinator) =
     (False, 6, init ''eufy'' 3000)"
  by (simp add: started_listening_loop.simps poll_refreshed_loop.simps init_def)

section \<open>The live store\<close>

lemma getitem_Inr_obj:
  "getitem e k = Inr s \<Longrightarrow> \<exists>fields. e = JObj fields \<and> map_of fields k = Some s"
  by (cases e) (auto split: option.splits)

lemma for_entity_no_match:
  "\<forall>e\<in>set es. \<exists>s. getitem e ''serialNumber'' = Inr s \<and> s \<noteq> JStr sn \<Longrightarrow>
   for_entity es sn p v = Inr es"
  by (induction es) auto

lemma for_entity_first_match:
  "i < length es \<Longrightarrow>
   getitem (es ! i) ''serialNumber'' = Inr (JStr sn) \<Longrightarrow>
   \<forall>j<i. \<exists>s. getitem (es ! j) ''serialNumber'' = Inr s \<and> s \<noteq> JStr sn \<Longrightarrow>
   \<exists>fields. es ! i = JObj fields \<and>
     for_entity es sn p v = Inr (es[i := JObj (AList.update p v fields)])"
proof (induction es arbitrary: i)
  case Nil
  then show ?case by simp
next
  case (Cons e es)
  show ?case
  proof (cases i)
    case 0
    with Cons.prems(2) obtain fields where "e = JObj fields"
      by (auto dest: getitem_Inr_obj)
    with 0 Cons.prems(2) show ?thesis by simp
  next
    case (Suc i')
    from Cons.prems(3) Suc obtain s where s: "getitem e ''serialNumber'' = Inr s" "s \<noteq> JStr sn"
      by fastforce
    have "\<forall>j<i'. \<exists>s. getitem (es ! j) ''serialNumber'' = Inr s \<and> s \<noteq> JStr sn"
      using Cons.prems(3) Suc by fastforce
    with Cons.IH [of i'] Cons.prems(1,2) Suc
    obtain fields where "es ! i' = JObj fields"
      "for_entity es sn p v = Inr (es[i' := JObj (AList.update p v fields)])"
      by auto
    with s Suc show ?thesis by simp
  qed
qed

lemma set_data_value_no_match:
  assumes "d_data (data c) = JObj snapshot"
    and "map_of snapshot sources = Some (JArr entities)"
    and "\<forall>e\<in>set entities. \<exists>s. getitem e ''serialNumber'' = Inr s \<and> s \<noteq> JStr sn"
  shows "set_data_value_for_property sources sn p v c = Inr c"
proof -
  have "AList.update sources (JArr entities) snapshot = snapshot"
    using assms(2) by (rule update_triv)
  moreover have "c\<lparr>data := (data c)\<lparr>d_data := JObj snapshot\<rparr>\<rparr> = c"
    using assms(1) by (metis data_dict.surjective data_dict.update_convs(2) coordinator.surjective coordinator.update_convs(4))
  ultimately show ?thesis
    using assms for_entity_no_match [OF assms(3), of p v]
    by (simp add: set_data_value_for_property_def)
qed


text \<open>
  C5 (as amended). When the snapshot is a dictionary that has the named collection as a list
  of entity records, every record has a \<^verbatim>\<open>"serialNumber"\<close> and none has the given serial
  number, \<open>set_data_value_for_property\<close> raises nothing and leaves the whole coordinator as
  it was.
\<close>

theorem set_data_value_absent_serial:
  assumes "d_data (data c) = JObj snapshot"
    and "map_of snapshot sources = Some (JArr entities)"
    and "\<forall>e\<in>set entities. \<exists>s. getitem e ''serialNumber'' = Inr s \<and> s \<noteq> JStr sn"
  shows "set_data_value_for_property sources sn p v c = Inr c"
  using assms by (rule set_data_value_no_match)

theorem set_data_value_absent_serial_witness:
  "set_data_value_for_property ''devices'' ''D9'' ''motionDetected'' (JBool True) two_cameras =
     Inr two_cameras"
  by (rule set_data_value_absent_serial
        [where snapshot = two_cameras_snapshot and entities = two_cameras_devices])
    (auto simp: two_cameras_def two_cameras_snapshot_def two_cameras_devices_def init_def)

text \<open>
  C5 as stated fails for a collection name the snapshot does not have: on the snapshot
  \<^verbatim>\<open>{}\<close> that \<^verbatim>\<open>__init__\<close> sets, an update for the collection \<^verbatim>\<open>"devices"\<close> raises
  \<^verbatim>\<open>KeyError\<close>.
\<close>

theorem set_data_value_missing_collection_counterexample:
  "set_data_value_for_property ''devices'' ''D1'' ''motionDetected'' (JBool True)
     (init ''eufy'' 3000 :: unit coordinator) = Inl (KeyError ''devices'')"
  by (simp add: set_data_value_for_property_def init_def)

text \<open>
  C6 (as amended). When the named collection is a list whose record at index \<open>i\<close> is the
  first with the given serial number and every record before it has a
  \<^verbatim>\<open>"serialNumber"\<close>, the call succeeds and changes exactly that record: the property is
  set there, the other records of the collection, the other collections, the cache and the
  rest of the coordinator are as before. A second call with the same arguments changes
  nothing more, provided the property written is not \<^verbatim>\<open>"serialNumber"\<close> itself, or the
  value written is the serial number, or every other record has a \<^verbatim>\<open>"serialNumber"\<close>
  other than the given one.
\<close>

theorem set_data_value_first_match:
  assumes snap: "d_data (data c) = JObj snapshot"
    and coll: "map_of snapshot sources = Some (JArr entities)"
    and i: "i < length entities"
    and hit: "getitem (entities ! i) ''serialNumber'' = Inr (JStr sn)"
    and before: "\<forall>j<i. \<exists>s. getitem (entities ! j) ''serialNumber'' = Inr s \<and> s \<noteq> JStr sn"
  shows "\<exists>fields c'.
      entities ! i = JObj fields \<and>
      set_data_value_for_property sources sn p v c = Inr c' \<and>
      d_data (data c') =
        JObj (AList.update sources
                (JArr (entities[i := JObj (AList.update p v fields)])) snapshot) \<and>
      (\<forall>s. s \<noteq> sources \<longrightarrow> getitem (d_data (data c')) s = getitem (d_data (data c)) s) \<and>
      d_cache (data c') = d_cache (data c) \<and>
      c'\<lparr>data := data c\<rparr> = c \<and>
      (p \<noteq> ''serialNumber'' \<or> v = JStr sn \<or>
       (\<forall>j<length entities. j \<noteq> i \<longrightarrow>
          (\<exists>s. getitem (entities ! j) ''serialNumber'' = Inr s \<and> s \<noteq> JStr sn)) \<longrightarrow>
       set_data_value_for_property sources sn p v c' = Inr c')"
proof -
  from hit obtain fields where fields: "entities ! i = JObj fields"
      "map_of fields ''serialNumber'' = Some (JStr sn)"
    by (auto dest: getitem_Inr_obj)
  let ?e' = "JObj (AList.update p v fields)"
  let ?es' = "entities[i := ?e']"
  let ?snap' = "AList.update sources (JArr ?es') snapshot"
  let ?c' = "c\<lparr>data := (data c)\<lparr>d_data := JObj ?snap'\<rparr>\<rparr>"
  have loop: "for_entity entities sn p v = Inr ?es'"
    using for_entity_first_match [of i entities sn p v] i hit before fields by auto
  have run: "set_data_value_for_property sources sn p v c = Inr ?c'"
    using snap coll loop by (simp add: set_data_value_for_property_def)
  have others: "\<forall>s. s \<noteq> sources \<longrightarrow> getitem (d_data (data ?c')) s = getitem (d_data (data c)) s"
    using snap by (simp add: update_conv')
  have snap': "d_data (data ?c') = JObj ?snap'" by simp
  have coll': "map_of ?snap' sources = Some (JArr ?es')" by (simp add: update_conv')
  have again: "set_data_value_for_property sources sn p v ?c' = Inr ?c'"
    if cond: "p \<noteq> ''serialNumber'' \<or> v = JStr sn \<or>
       (\<forall>j<length entities. j \<noteq> i \<longrightarrow>
          (\<exists>s. getitem (entities ! j) ''serialNumber'' = Inr s \<and> s \<noteq> JStr sn))"
  proof (cases "p \<noteq> ''serialNumber'' \<or> v = JStr sn")
    case True
    then have hit': "getitem (?es' ! i) ''serialNumber'' = Inr (JStr sn)"
      using i fields by (auto simp: update_conv')
    have before': "\<forall>j<i. \<exists>s. getitem (?es' ! j) ''serialNumber'' = Inr s \<and> s \<noteq> JStr sn"
      using before by simp
    have "for_entity ?es' sn p v = Inr (?es'[i := JObj (AList.update p v (AList.update p v fields))])"
      using for_entity_first_match [of i ?es' sn p v] i hit' before' by auto
    then have "for_entity ?es' sn p v = Inr ?es'" by simp
    then show ?thesis
      using coll' by (simp add: set_data_value_for_property_def)
  next
    case False
    with cond have uniq: "\<forall>j<length entities. j \<noteq> i \<longrightarrow>
          (\<exists>s. getitem (entities ! j) ''serialNumber'' = Inr s \<and> s \<noteq> JStr sn)" by blast
    have "\<forall>e\<in>set ?es'. \<exists>s. getitem e ''serialNumber'' = Inr s \<and> s \<noteq> JStr sn"
    proof
      fix e assume "e \<in> set ?es'"
      then obtain j where j: "j < length entities" "e = ?es' ! j"
        by (auto simp: in_set_conv_nth)
      show "\<exists>s. getitem e ''serialNumber'' = Inr s \<and> s \<noteq> JStr sn"
      proof (cases "j = i")
        case True
        with j i False show ?thesis by (simp add: update_conv')
      next
        case neq: False
        with j have e: "e = entities ! j" by simp
        from uniq j(1) neq show ?thesis unfolding e by simp
      qed
    qed
    then show ?thesis
      using snap' coll' by (rule set_data_value_no_match [rotated 2])
  qed
  have frame: "?c'\<lparr>data := data c\<rparr> = c" by simp
  show ?thesis
    using fields run others again frame
    by (intro exI [of _ fields] exI [of _ ?c']) simp
qed

theorem set_data_value_first_match_witness:
  "(\<exists>fields c'.
      two_cameras_devices ! 1 = JObj fields \<and>
      set_data_value_for_property ''devices'' ''D2'' ''motionDetected'' (JBool True)
        two_cameras = Inr c' \<and>
      d_data (data c') =
        JObj (AList.update ''devices''
                (JArr (two_cameras_devices[1 := JObj (AList.update ''motionDetected''
                   (JBool True) fields)])) two_cameras_snapshot) \<and>
      (\<forall>s. s \<noteq> ''devices'' \<longrightarrow>
         getitem (d_data (data c')) s = getitem (d_data (data two_cameras)) s) \<and>
      d_cache (data c') = d_cache (data two_cameras) \<and>
      c'\<lparr>data := data two_cameras\<rparr> = two_cameras \<and>
      (''motionDetected'' \<noteq> ''serialNumber'' \<or> JBool True = JStr ''D2'' \<or>
       (\<forall>j<length two_cameras_devices. j \<noteq> 1 \<longrightarrow>
          (\<exists>s. getitem (two_cameras_devices ! j) ''serialNumber'' = Inr s \<and>
             s \<noteq> JStr ''D2'')) \<longrightarrow>
       set_data_value_for_property ''devices'' ''D2'' ''motionDetected'' (JBool True) c' =
         Inr c')) \<and>
   set_data_value_for_property ''devices'' ''D2'' ''motionDetected'' (JBool True) two_cameras =
     Inr (two_cameras\<lparr>data := \<lparr> d_cache = [], d_data = JObj
       [(''devices'', JArr
          [JObj [(''serialNumber'', JStr ''D1''), (''name'', JStr ''Cam1'')],
           JObj [(''serialNumber'', JStr ''D2''), (''name'', JStr ''Cam2''),
                 (''motionDetected'', JBool True)]]),
        (''stations'', JArr [JObj [(''serialNumber'', JStr ''S1'')]])] \<rparr>\<rparr>)"
proof (rule conjI)
  show "\<exists>fields c'.
      two_cameras_devices ! 1 = JObj fields \<and>
      set_data_value_for_property ''devices'' ''D2'' ''motionDetected'' (JBool True)
        two_cameras = Inr c' \<and>
      d_data (data c') =
        JObj (AList.update ''devices''
                (JArr (two_cameras_devices[1 := JObj (AList.update ''motionDetected''
                   (JBool True) fields)])) two_cameras_snapshot) \<and>
      (\<forall>s. s \<noteq> ''devices'' \<longrightarrow>
         getitem (d_data (data c')) s = getitem (d_data (data two_cameras)) s) \<and>
      d_cache (data c') = d_cache (data two_cameras) \<and>
      c'\<lparr>data := data two_cameras\<rparr> = two_cameras \<and>
      (''motionDetected'' \<noteq> ''serialNumber'' \<or> JBool True = JStr ''D2'' \<or>
       (\<forall>j<length two_cameras_devices. j \<noteq> 1 \<longrightarrow>
          (\<exists>s. getitem (two_cameras_devices ! j) ''serialNumber'' = Inr s \<and>
             s \<noteq> JStr ''D2'')) \<longrightarrow>
       set_data_value_for_property ''devices'' ''D2'' ''motionDetected'' (JBool True) c' =
         Inr c')"
    by (rule set_data_value_first_match)
      (auto simp: two_cameras_def two_cameras_snapshot_def two_cameras_devices_def init_def)
next
  show "set_data_value_for_property ''devices'' ''D2'' ''motionDetected'' (JBool True)
      two_cameras =
     Inr (two_cameras\<lparr>data := \<lparr> d_cache = [], d_data = JObj
       [(''devices'', JArr
          [JObj [(''serialNumber'', JStr ''D1''), (''name'', JStr ''Cam1'')],
           JObj [(''serialNumber'', JStr ''D2''), (''name'', JStr ''Cam2''),
                 (''motionDetected'', JBool True)]]),
        (''stations'', JArr [JObj [(''serialNumber'', JStr ''S1'')]])] \<rparr>\<rparr>)"
    by (simp add: set_data_value_for_property_def two_cameras_def two_cameras_snapshot_def
        two_cameras_devices_def init_def)
qed

text \<open>
  C6 as stated fails in two ways. The serial number \<^verbatim>\<open>D1\<close> is in the collection, but a
  record scanned before it has no \<^verbatim>\<open>"serialNumber"\<close>: the call raises \<^verbatim>\<open>KeyError\<close>. And
  with two records of serial number \<^verbatim>\<open>D1\<close>, writing the property \<^verbatim>\<open>"serialNumber"\<close> with
  the value \<^verbatim>\<open>"X"\<close> changes the first record, and writing it again changes the second
  record: the second call is not a no-op.
\<close>

theorem set_data_value_first_match_counterexample:
  "set_data_value_for_property ''devices'' ''D1'' ''name'' (JStr ''Cam1'')
     (with_devices [JObj [(''name'', JStr ''x'')], JObj [(''serialNumber'', JStr ''D1'')]]) =
     Inl (KeyError ''serialNumber'') \<and>
   set_data_value_for_property ''devices'' ''D1'' ''serialNumber'' (JStr ''X'')
     (with_devices [JObj [(''serialNumber'', JStr ''D1''), (''name'', JStr ''Cam1'')],
                    JObj [(''serialNumber'', JStr ''D1''), (''name'', JStr ''Cam2'')]]) =
     Inr (with_devices [JObj [(''serialNumber'', JStr ''X''), (''name'', JStr ''Cam1'')],
                        JObj [(''serialNumber'', JStr ''D1''), (''name'', JStr ''Cam2'')]]) \<and>
   set_data_value_for_property ''devices'' ''D1'' ''serialNumber'' (JStr ''X'')
     (with_devices [JObj [(''serialNumber'', JStr ''X''), (''name'', JStr ''Cam1'')],
                    JObj [(''serialNumber'', JStr ''D1''), (''name'', JStr ''Cam2'')]]) =
     Inr (with_devices [JObj [(''serialNumber'', JStr ''X''), (''name'', JStr ''Cam1'')],
                        JObj [(''serialNumber'', JStr ''X''), (''name'', JStr ''Cam2'')]]) \<and>
   with_devices [JObj [(''serialNumber'', JStr ''X''), (''name'', JStr ''Cam1'')],
                 JObj [(''serialNumber'', JStr ''D1''), (''name'', JStr ''Cam2'')]] \<noteq>
   with_devices [JObj [(''serialNumber'', JStr ''X''), (''name'', JStr ''Cam1'')],
                 JObj [(''serialNumber'', JStr ''X''), (''name'', JStr ''Cam2'')]]"
  by (simp add: set_data_value_for_property_def with_devices_def init_def)

section \<open>The property cache\<close>

text \<open>
  C7. After \<open>set_cache_value_for_property\<close> the cache holds, for the serial number and the
  property, the string without its NUL characters (\<^verbatim>\<open>"\x00ab\x00c"\<close> is stored as
  \<^verbatim>\<open>"abc"\<close>) and any value that is not a string as it is; a serial number that was not in
  the cache gets a dictionary with this one property; the other entries of the cache, the
  snapshot and the rest of the coordinator are as before. The function is total and has no
  error result: nothing in the source's body can raise.
\<close>

theorem set_cache_value_strips_nul:
  "cached (set_cache_value_for_property sources sn p (JStr s) c) sn p =
     Some (JStr (filter (\<lambda>ch. ch \<noteq> CHR 0x00) s)) \<and>
   cached (set_cache_value_for_property sources sn p
             (JStr (CHR 0x00 # ''ab'' @ CHR 0x00 # ''c'')) c) sn p = Some (JStr ''abc'') \<and>
   ((\<forall>s. v \<noteq> JStr s) \<longrightarrow>
      cached (set_cache_value_for_property sources sn p v c) sn p = Some v) \<and>
   (map_of (d_cache (data c)) sn = None \<longrightarrow>
      map_of (d_cache (data (set_cache_value_for_property sources sn p v c))) sn =
        Some [(p, case v of JStr s \<Rightarrow> JStr (filter (\<lambda>ch. ch \<noteq> CHR 0x00) s) | _ \<Rightarrow> v)]) \<and>
   (sn' \<noteq> sn \<or> p' \<noteq> p \<longrightarrow>
      cached (set_cache_value_for_property sources sn p v c) sn' p' = cached c sn' p') \<and>
   d_data (data (set_cache_value_for_property sources sn p v c)) = d_data (data c) \<and>
   set_cache_value_for_property sources sn p v c\<lparr>data := data c\<rparr> = c"
proof -
  have nonstr: "(case v of JStr s \<Rightarrow> JStr (filter (\<lambda>ch. ch \<noteq> CHR 0x00) s) | _ \<Rightarrow> v) = v"
    if "\<forall>s. v \<noteq> JStr s"
    using that by (cases v) simp_all
  show ?thesis
    by (auto simp: cached_def set_cache_value_for_property_def Let_def update_conv' nonstr
        split: option.splits)
qed

theorem set_cache_value_strips_nul_witness:
  "cached (set_cache_value_for_property ''devices'' ''T8410'' ''rtspUrl'' (JInt 5)
             (init ''eufy'' 3000 :: unit coordinator)) ''T8410'' ''rtspUrl'' = Some (JInt 5) \<and>
   map_of (d_cache (data (set_cache_value_for_property ''devices'' ''T8410'' ''rtspUrl''
             (JInt 5) (init ''eufy'' 3000 :: unit coordinator)))) ''T8410'' =
      Some [(''rtspUrl'', JInt 5)] \<and>
   cached (set_cache_value_for_property ''devices'' ''T8410'' ''rtspUrl'' (JInt 5)
             (init ''eufy'' 3000 :: unit coordinator)) ''T8410'' ''name'' = None"
  using set_cache_value_strips_nul [of "''devices''" "''T8410''" "''rtspUrl''" "[]"
      "init ''eufy'' 3000 :: unit coordinator" "JInt 5" "''T8410''" "''name''"]
  by (simp add: init_def cached_def)

text \<open>
  C10. \<open>set_cache_value_for_property\<close> does not use \<open>sources\<close>: two calls that differ in
  it only give the same coordinator. So a write for a station and a write for a device with
  the same serial number go to the same entry of the cache, where the later one replaces
  the earlier one.
\<close>

theorem set_cache_value_ignores_sources:
  "set_cache_value_for_property s1 sn p v c = set_cache_value_for_property s2 sn p v c \<and>
   d_cache (data (set_cache_value_for_property ''devices'' sn p v
      (set_cache_value_for_property ''stations'' sn p v' c))) =
   d_cache (data (set_cache_value_for_property ''devices'' sn p v c)) \<and>
   cached (set_cache_value_for_property ''stations'' sn p v c) sn p =
   cached (set_cache_value_for_property ''devices'' sn p v c) sn p \<and>
   on_message example_configuration
     (event_message ''got rtsp url'' ''device''
        [(''serialNumber'', JStr ''D1''), (''rtspUrl'', JStr ''rtsp://cam'')]) two_cameras =
   on_message example_configuration
     (event_message ''got rtsp url'' ''station''
        [(''serialNumber'', JStr ''D1''), (''rtspUrl'', JStr ''rtsp://cam'')]) two_cameras"
  by (simp add: set_cache_value_for_property_def Let_def update_conv'
      on_message_def event_block_def MESSAGE_TYPES_TO_PROCESS_def
      example_configuration_def event_message_def)

section \<open>Results and unrecognized messages\<close>

lemma on_message_start_listening:
  assumes "map_of kvs ''type'' = Some (JStr ''result'')"
    and "map_of kvs ''result'' = Some message"
    and "map_of kvs ''messageId'' = Some (JStr ''start_listening'')"
    and "getitem message ''state'' = Inr st"
  shows "on_message cfg (JObj kvs) c =
      Inr (c\<lparr>data := (data c)\<lparr>d_data := st\<rparr>, start_listening_state := True,
             updated := updated c @ [(data c)\<lparr>d_data := st\<rparr>]\<rparr>)"
  using assms
  by (simp add: on_message_def result_block_def MESSAGE_TYPES_TO_PROCESS_def
      MESSAGE_IDS_TO_PROCESS_def set_start_listening_state_def async_set_updated_data_def)

lemma on_message_poll_refresh:
  assumes "map_of kvs ''type'' = Some (JStr ''result'')"
    and "map_of kvs ''result'' = Some message"
    and "map_of kvs ''messageId'' = Some (JStr ''poll_refresh'')"
  shows "on_message cfg (JObj kvs) c = Inr (c\<lparr>poll_refresing_state := True\<rparr>)"
  using assms
  by (simp add: on_message_def result_block_def MESSAGE_TYPES_TO_PROCESS_def
      MESSAGE_IDS_TO_PROCESS_def set_poll_refreshing_state_def)

lemma on_message_other_id:
  assumes "map_of kvs ''type'' = Some (JStr ''result'')"
    and "map_of kvs ''result'' = Some message"
    and "map_of kvs ''messageId'' = Some mid"
    and "mid \<noteq> JStr ''start_listening''" and "mid \<noteq> JStr ''poll_refresh''"
  shows "on_message cfg (JObj kvs) c = Inr c"
  using assms
  by (cases mid)
    (simp_all add: on_message_def result_block_def MESSAGE_TYPES_TO_PROCESS_def
      MESSAGE_IDS_TO_PROCESS_def)

lemma on_message_other_type:
  assumes "map_of kvs ''type'' = Some t"
    and "t \<noteq> JStr ''result''" and "t \<noteq> JStr ''event''"
  shows "on_message cfg (JObj kvs) c = Inr c"
  using assms
  by (cases t) (simp_all add: on_message_def MESSAGE_TYPES_TO_PROCESS_def)

lemma on_message_other_event:
  assumes "map_of kvs ''type'' = Some (JStr ''event'')"
    and "map_of kvs ''event'' = Some (JObj ev)"
    and "map_of ev ''event'' = Some (JStr et)"
    and "map_of ev ''source'' = Some (JStr src)"
    and "map_of ev ''serialNumber'' = Some sn"
    and "map_of cfg et = None"
  shows "on_message cfg (JObj kvs) c = Inr c"
  using assms
  by (simp add: on_message_def event_block_def MESSAGE_TYPES_TO_PROCESS_def)


text \<open>
  C3 (as amended). For a message of type \<^verbatim>\<open>"result"\<close> that has a \<^verbatim>\<open>"result"\<close> field: with
  the id \<^verbatim>\<open>"start_listening"\<close> and a \<^verbatim>\<open>"state"\<close> in the result, the snapshot becomes that
  state, the listening flag becomes true and the merged state is published; with the id
  \<^verbatim>\<open>"poll_refresh"\<close>, only the poll flag becomes true; with any other id, nothing changes.
\<close>

theorem on_message_result:
  assumes "getitem payload ''type'' = Inr (JStr ''result'')"
    and "getitem payload ''result'' = Inr message"
  shows "(getitem payload ''messageId'' = Inr (JStr ''start_listening'') \<and>
          getitem message ''state'' = Inr st \<longrightarrow>
            on_message cfg payload c =
              Inr (c\<lparr>data := (data c)\<lparr>d_data := st\<rparr>, start_listening_state := True,
                     updated := updated c @ [(data c)\<lparr>d_data := st\<rparr>]\<rparr>)) \<and>
         (getitem payload ''messageId'' = Inr (JStr ''poll_refresh'') \<longrightarrow>
            on_message cfg payload c = Inr (c\<lparr>poll_refresing_state := True\<rparr>)) \<and>
         (getitem payload ''messageId'' = Inr mid \<and>
          mid \<noteq> JStr ''start_listening'' \<and> mid \<noteq> JStr ''poll_refresh'' \<longrightarrow>
            on_message cfg payload c = Inr c)"
proof -
  from assms(1) obtain kvs where kvs: "payload = JObj kvs"
    by (auto dest: getitem_Inr_obj)
  with assms have t: "map_of kvs ''type'' = Some (JStr ''result'')"
    and r: "map_of kvs ''result'' = Some message"
    by (auto split: option.splits)
  have id: "map_of kvs ''messageId'' = Some x" if "getitem payload ''messageId'' = Inr x" for x
    using that kvs by (auto split: option.splits)
  show ?thesis
    unfolding kvs
    using on_message_start_listening [OF t r] on_message_poll_refresh [OF t r]
      on_message_other_id [OF t r] id kvs
    by blast
qed

theorem on_message_result_witness:
  "on_message example_configuration start_listening_result
     (init ''eufy'' 3000 :: unit coordinator) =
     Inr ((init ''eufy'' 3000)
       \<lparr>data := \<lparr> d_cache = [], d_data = JObj [(''devices'',
            JArr [JObj [(''serialNumber'', JStr ''D1''), (''name'', JStr ''Cam1'')]])] \<rparr>,
        start_listening_state := True,
        updated := [\<lparr> d_cache = [], d_data = JObj [(''devices'',
            JArr [JObj [(''serialNumber'', JStr ''D1''), (''name'', JStr ''Cam1'')]])] \<rparr>]\<rparr>) \<and>
   on_message example_configuration poll_refresh_result two_cameras =
     Inr (two_cameras\<lparr>poll_refresing_state := True\<rparr>) \<and>
   on_message example_configuration unknown_id_result two_cameras = Inr two_cameras"
proof -
  have a: "on_message example_configuration start_listening_result
     (init ''eufy'' 3000 :: unit coordinator) =
     Inr ((init ''eufy'' 3000)
       \<lparr>data := \<lparr> d_cache = [], d_data = JObj [(''devices'',
            JArr [JObj [(''serialNumber'', JStr ''D1''), (''name'', JStr ''Cam1'')]])] \<rparr>,
        start_listening_state := True,
        updated := [\<lparr> d_cache = [], d_data = JObj [(''devices'',
            JArr [JObj [(''serialNumber'', JStr ''D1''), (''name'', JStr ''Cam1'')]])] \<rparr>]\<rparr>)"
    using on_message_result [of start_listening_result
        "JObj [(''state'', JObj [(''devices'',
              JArr [JObj [(''serialNumber'', JStr ''D1''), (''name'', JStr ''Cam1'')]])])]"
        "JObj [(''devices'',
              JArr [JObj [(''serialNumber'', JStr ''D1''), (''name'', JStr ''Cam1'')]])]"
        example_configuration "init ''eufy'' 3000 :: unit coordinator"]
    by (simp add: start_listening_result_def init_def)
  have b: "on_message example_configuration poll_refresh_result two_cameras =
     Inr (two_cameras\<lparr>poll_refresing_state := True\<rparr>)"
    using on_message_result [of poll_refresh_result "JObj []" _ example_configuration two_cameras]
    by (simp add: poll_refresh_result_def)
  have c: "on_message example_configuration unknown_id_result two_cameras = Inr two_cameras"
    using on_message_result [of unknown_id_result "JObj []" _ example_configuration two_cameras
        "JStr ''unknown_id''"]
    by (simp add: unknown_id_result_def)
  from a b c show ?thesis by simp
qed

text \<open>
  C3 as stated fails for a result that has no \<^verbatim>\<open>"result"\<close> field, as the reply to a
  failed command: \<^verbatim>\<open>payload[message_type]\<close> raises \<^verbatim>\<open>KeyError\<close> before the message id is
  looked at, and the poll flag is not set.
\<close>

theorem on_message_result_field_counterexample:
  "on_message example_configuration poll_refresh_failure two_cameras =
     Inl (KeyError ''result'')"
  by (simp add: on_message_def poll_refresh_failure_def MESSAGE_TYPES_TO_PROCESS_def)

text \<open>
  C4 (as amended). \<open>on_message\<close> raises nothing and changes nothing for a payload whose
  \<^verbatim>\<open>"type"\<close> is neither \<^verbatim>\<open>"result"\<close> nor \<^verbatim>\<open>"event"\<close>, for a result with a
  \<^verbatim>\<open>"result"\<close> field and a message id other than the two recognized ones, and for an event
  with an \<^verbatim>\<open>"event"\<close> name that is not in the table, a string \<^verbatim>\<open>"source"\<close> and a
  \<^verbatim>\<open>"serialNumber"\<close>.
\<close>

theorem on_message_ignores_unrecognized:
  "(getitem payload ''type'' = Inr t \<and> t \<noteq> JStr ''result'' \<and> t \<noteq> JStr ''event'' \<longrightarrow>
      on_message cfg payload c = Inr c) \<and>
   (getitem payload ''type'' = Inr (JStr ''result'') \<and>
    getitem payload ''result'' = Inr message \<and>
    getitem payload ''messageId'' = Inr mid \<and>
    mid \<noteq> JStr ''start_listening'' \<and> mid \<noteq> JStr ''poll_refresh'' \<longrightarrow>
      on_message cfg payload c = Inr c) \<and>
   (getitem payload ''type'' = Inr (JStr ''event'') \<and>
    getitem payload ''event'' = Inr ev \<and>
    getitem ev ''event'' = Inr (JStr et) \<and>
    getitem ev ''source'' = Inr (JStr src) \<and>
    getitem ev ''serialNumber'' = Inr sn \<and>
    map_of cfg et = None \<longrightarrow>
      on_message cfg payload c = Inr c)"
proof (intro conjI impI)
  assume a: "getitem payload ''type'' = Inr t \<and> t \<noteq> JStr ''result'' \<and> t \<noteq> JStr ''event''"
  then obtain kvs where "payload = JObj kvs" "map_of kvs ''type'' = Some t"
    by (auto dest: getitem_Inr_obj)
  with a show "on_message cfg payload c = Inr c"
    by (simp add: on_message_other_type)
next
  assume a: "getitem payload ''type'' = Inr (JStr ''result'') \<and>
    getitem payload ''result'' = Inr message \<and>
    getitem payload ''messageId'' = Inr mid \<and>
    mid \<noteq> JStr ''start_listening'' \<and> mid \<noteq> JStr ''poll_refresh''"
  then obtain kvs where kvs: "payload = JObj kvs"
    by (auto dest: getitem_Inr_obj)
  with a have "map_of kvs ''type'' = Some (JStr ''result'')"
    "map_of kvs ''result'' = Some message" "map_of kvs ''messageId'' = Some mid"
    by (auto split: option.splits)
  with a kvs show "on_message cfg payload c = Inr c"
    by (simp add: on_message_other_id)
next
  assume a: "getitem payload ''type'' = Inr (JStr ''event'') \<and>
    getitem payload ''event'' = Inr ev \<and>
    getitem ev ''event'' = Inr (JStr et) \<and>
    getitem ev ''source'' = Inr (JStr src) \<and>
    getitem ev ''serialNumber'' = Inr sn \<and>
    map_of cfg et = None"
  then obtain kvs where kvs: "payload = JObj kvs"
    by (auto dest: getitem_Inr_obj)
  from a obtain fields where ev: "ev = JObj fields"
    by (auto dest: getitem_Inr_obj)
  from a kvs ev have f: "map_of kvs ''type'' = Some (JStr ''event'')"
    "map_of kvs ''event'' = Some (JObj fields)"
    "map_of fields ''event'' = Some (JStr et)"
    "map_of fields ''source'' = Some (JStr src)"
    "map_of fields ''serialNumber'' = Some sn"
    by (auto split: option.splits)
  from a have "map_of cfg et = None" by simp
  with f show "on_message cfg payload c = Inr c"
    unfolding kvs by (rule on_message_other_event)
qed

theorem on_message_ignores_unrecognized_witness:
  "on_message example_configuration version_message two_cameras = Inr two_cameras \<and>
   on_message example_configuration unknown_id_result two_cameras = Inr two_cameras \<and>
   on_message example_configuration
     (event_message ''alarm event'' ''station'' [(''serialNumber'', JStr ''S1'')])
     two_cameras = Inr two_cameras"
proof -
  have a: "on_message example_configuration version_message two_cameras = Inr two_cameras"
    using on_message_ignores_unrecognized [of version_message "JStr ''version''"
        example_configuration two_cameras]
    by (simp add: version_message_def)
  have b: "on_message example_configuration unknown_id_result two_cameras = Inr two_cameras"
    using on_message_ignores_unrecognized [of unknown_id_result _ example_configuration
        two_cameras "JObj []" "JStr ''unknown_id''"]
    by (simp add: unknown_id_result_def)
  have c: "on_message example_configuration
     (event_message ''alarm event'' ''station'' [(''serialNumber'', JStr ''S1'')])
     two_cameras = Inr two_cameras"
    using on_message_ignores_unrecognized [of
        "event_message ''alarm event'' ''station'' [(''serialNumber'', JStr ''S1'')]" _
        example_configuration two_cameras _ _
        "JObj [(''source'', JStr ''station''), (''event'', JStr ''alarm event''),
               (''serialNumber'', JStr ''S1'')]"
        "''alarm event''" "''station''" "JStr ''S1''"]
    by (simp add: event_message_def example_configuration_def)
  from a b c show ?thesis by simp
qed

text \<open>
  C4 as stated fails: a payload without \<^verbatim>\<open>"type"\<close>, an event of an unknown type without
  \<^verbatim>\<open>"source"\<close>, and a motion event that arrives while the snapshot has no
  \<^verbatim>\<open>"devices"\<close> collection each raise \<^verbatim>\<open>KeyError\<close>.
\<close>

theorem on_message_missing_field_counterexample:
  "on_message example_configuration (JObj [(''messageId'', JStr ''poll_refresh'')])
     two_cameras = Inl (KeyError ''type'') \<and>
   on_message example_configuration
     (JObj [(''type'', JStr ''event''),
            (''event'', JObj [(''event'', JStr ''alarm event''),
                              (''serialNumber'', JStr ''S1'')])])
     two_cameras = Inl (KeyError ''source'') \<and>
   on_message example_configuration
     (event_message ''motion detected'' ''device''
        [(''serialNumber'', JStr ''D1''), (''state'', JBool True)])
     (init ''eufy'' 3000 :: unit coordinator) = Inl (KeyError ''devices'')"
  by (simp add: on_message_def event_block_def MESSAGE_TYPES_TO_PROCESS_def
      example_configuration_def event_message_def set_data_value_for_property_def init_def)

text \<open>
  The scenario of a live event: a motion event for camera \<^verbatim>\<open>D1\<close> sets the property of
  that record in place and publishes the merged state.
\<close>

lemma scenario_motion:
  "on_message example_configuration
     (event_message ''motion detected'' ''device''
        [(''serialNumber'', JStr ''D1''), (''state'', JBool True)]) two_cameras =
   Inr (two_cameras\<lparr>data := \<lparr> d_cache = [], d_data = JObj
       [(''devices'', JArr
          [JObj [(''serialNumber'', JStr ''D1''), (''name'', JStr ''Cam1''),
                 (''motionDetected'', JBool True)],
           JObj [(''serialNumber'', JStr ''D2''), (''name'', JStr ''Cam2'')]]),
        (''stations'', JArr [JObj [(''serialNumber'', JStr ''S1'')]])] \<rparr>,
      updated := [\<lparr> d_cache = [], d_data = JObj
       [(''devices'', JArr
          [JObj [(''serialNumber'', JStr ''D1''), (''name'', JStr ''Cam1''),
                 (''motionDetected'', JBool True)],
           JObj [(''serialNumber'', JStr ''D2''), (''name'', JStr ''Cam2'')]]),
        (''stations'', JArr [JObj [(''serialNumber'', JStr ''S1'')]])] \<rparr>]\<rparr>)"
  by (simp add: on_message_def event_block_def MESSAGE_TYPES_TO_PROCESS_def
      example_configuration_def event_message_def set_data_value_for_property_def init_def
      two_cameras_def two_cameras_snapshot_def two_cameras_devices_def async_set_updated_data_def)

section \<open>Initialization and refresh\<close>

lemma transport_exn_not_Exception: "transport_exn r \<noteq> Exception msg"
  by (cases r) simp_all

lemma is_Exception_transport_exn: "is_Exception (transport_exn r) = (r \<noteq> Cancelled)"
  by (cases r) simp_all

text \<open>
  C8. \<open>initialize_ws\<close> makes the websocket object and calls \<^verbatim>\<open>set_ws\<close>; a failure there
  goes to the caller with the flag untouched and nothing sent. It then resets the listening
  flag and sends the start-listening command once: a failed send leaves the flag reset. It
  then waits once, from the coordinator with the flag reset and the transport as the one
  send left it, and raises the timeout exception if and only if both transport calls
  succeeded and the wait returned \<open>False\<close>. Each transport method is applied once, to
  the object the previous step returned: there is no retry.
\<close>

theorem initialize_ws_sequence:
  "(set_ws tr (EufySecurityWebSocket tr (host c) (port c)) = Inl r \<longrightarrow>
      initialize_ws tr START sleep c =
        (Raise (transport_exn r),
         c\<lparr>ws := Some (EufySecurityWebSocket tr (host c) (port c))\<rparr>)) \<and>
   (set_ws tr (EufySecurityWebSocket tr (host c) (port c)) = Inr w1 \<and>
    send_message tr w1 (Dumps START) = Inl r \<longrightarrow>
      initialize_ws tr START sleep c =
        (Raise (transport_exn r), c\<lparr>ws := Some w1, start_listening_state := False\<rparr>)) \<and>
   (set_ws tr (EufySecurityWebSocket tr (host c) (port c)) = Inr w1 \<and>
    send_message tr w1 (Dumps START) = Inr w2 \<longrightarrow>
      initialize_ws tr START sleep c =
        (if fst (check_if_started_listening sleep True
                   (c\<lparr>start_listening_state := False, ws := Some w2\<rparr>))
         then Return ()
         else Raise (Exception ''Start Listening was not completed in timely manner''),
         snd (check_if_started_listening sleep True
                (c\<lparr>start_listening_state := False, ws := Some w2\<rparr>)))) \<and>
   ((fst (initialize_ws tr START sleep c) =
       Raise (Exception ''Start Listening was not completed in timely manner'')) =
    (\<exists>w1 w2. set_ws tr (EufySecurityWebSocket tr (host c) (port c)) = Inr w1 \<and>
       send_message tr w1 (Dumps START) = Inr w2 \<and>
       fst (check_if_started_listening sleep True
              (c\<lparr>start_listening_state := False, ws := Some w2\<rparr>)) = False))"
  by (auto simp: initialize_ws_def async_start_listening_def async_send_message_def
      set_start_listening_state_def Let_def transport_exn_not_Exception
      split: sum.splits prod.splits)

theorem initialize_ws_sequence_witness:
  "initialize_ws logging_websocket start_listening_command
     (reply_arrives start_listening_result 1) (init ''eufy'' 3000) =
     (Return (),
      (init ''eufy'' 3000)
        \<lparr>ws := Some \<lparr> connected = True, sent = [Dumps start_listening_command] \<rparr>,
         data := \<lparr> d_cache = [], d_data = JObj [(''devices'',
            JArr [JObj [(''serialNumber'', JStr ''D1''), (''name'', JStr ''Cam1'')]])] \<rparr>,
         start_listening_state := True,
         updated := [\<lparr> d_cache = [], d_data = JObj [(''devices'',
            JArr [JObj [(''serialNumber'', JStr ''D1''), (''name'', JStr ''Cam1'')]])] \<rparr>]\<rparr>) \<and>
   initialize_ws logging_websocket start_listening_command silence (init ''eufy'' 3000) =
     (Raise (Exception ''Start Listening was not completed in timely manner''),
      (init ''eufy'' 3000)
        \<lparr>ws := Some \<lparr> connected = True, sent = [Dumps start_listening_command] \<rparr>\<rparr>)"
proof -
  let ?w1 = "\<lparr> connected = True, sent = [] \<rparr>"
  let ?w2 = "\<lparr> connected = True, sent = [Dumps start_listening_command] \<rparr>"
  have a: "initialize_ws logging_websocket start_listening_command
     (reply_arrives start_listening_result 1) (init ''eufy'' 3000) =
     (Return (),
      (init ''eufy'' 3000)
        \<lparr>ws := Some ?w2,
         data := \<lparr> d_cache = [], d_data = JObj [(''devices'',
            JArr [JObj [(''serialNumber'', JStr ''D1''), (''name'', JStr ''Cam1'')]])] \<rparr>,
         start_listening_state := True,
         updated := [\<lparr> d_cache = [], d_data = JObj [(''devices'',
            JArr [JObj [(''serialNumber'', JStr ''D1''), (''name'', JStr ''Cam1'')]])] \<rparr>]\<rparr>)"
    using initialize_ws_sequence [of logging_websocket "init ''eufy'' 3000" _ start_listening_command
        "reply_arrives start_listening_result 1" ?w1 ?w2]
    by (simp add: logging_websocket_def init_def check_if_started_listening_def
        started_listening_loop.simps reply_arrives_def on_message_def result_block_def
        MESSAGE_TYPES_TO_PROCESS_def MESSAGE_IDS_TO_PROCESS_def start_listening_result_def
        set_start_listening_state_def async_set_updated_data_def)
  have b: "initialize_ws logging_websocket start_listening_command silence (init ''eufy'' 3000) =
     (Raise (Exception ''Start Listening was not completed in timely manner''),
      (init ''eufy'' 3000)\<lparr>ws := Some ?w2\<rparr>)"
    using initialize_ws_sequence [of logging_websocket "init ''eufy'' 3000" _ start_listening_command
        silence ?w1 ?w2]
    by (simp add: logging_websocket_def init_def check_if_started_listening_def
        started_listening_loop.simps silence_def)
  from a b show ?thesis by simp
qed

text \<open>
  C2 (as amended). \<open>async_update_data\<close> first resets the poll flag and sends the
  poll-refresh command. When the send raises an exception that \<^verbatim>\<open>except Exception\<close>
  catches, because there is no websocket object yet or because the transport fails, it
  raises \<^verbatim>\<open>UpdateFailed\<close> without waiting. When the send succeeds it waits, raises
  \<^verbatim>\<open>UpdateFailed\<close> if and only if the wait returns \<open>False\<close>, and else returns
  \<^verbatim>\<open>self.data\<close>, the cache and the snapshot, as it is after the wait. So it raises
  \<^verbatim>\<open>UpdateFailed\<close> exactly after such a failed send or a wait that returned \<open>False\<close>.
\<close>

theorem async_update_data_sequence:
  "(ws c = None \<longrightarrow>
      async_update_data tr POLL sleep c =
        (Raise (UpdateFailed (AttributeError ''send_message'')),
         c\<lparr>poll_refresing_state := False\<rparr>)) \<and>
   (ws c = Some w \<and> send_message tr w (Dumps POLL) = Inl (Failed r) \<longrightarrow>
      async_update_data tr POLL sleep c =
        (Raise (UpdateFailed (TransportError r)), c\<lparr>poll_refresing_state := False\<rparr>)) \<and>
   (ws c = Some w \<and> send_message tr w (Dumps POLL) = Inr w' \<longrightarrow>
      async_update_data tr POLL sleep c =
        (if fst (check_if_poll_refreshed sleep True
                   (c\<lparr>poll_refresing_state := False, ws := Some w'\<rparr>))
         then Return (data (snd (check_if_poll_refreshed sleep True
                   (c\<lparr>poll_refresing_state := False, ws := Some w'\<rparr>))))
         else Raise (UpdateFailed
                (Exception ''Refresh Poll was not completed in timely manner'')),
         snd (check_if_poll_refreshed sleep True
                (c\<lparr>poll_refresing_state := False, ws := Some w'\<rparr>)))) \<and>
   ((\<exists>e. fst (async_update_data tr POLL sleep c) = Raise (UpdateFailed e)) =
    (ws c = None \<or>
     (\<exists>w r. ws c = Some w \<and> send_message tr w (Dumps POLL) = Inl (Failed r)) \<or>
     (\<exists>w w'. ws c = Some w \<and> send_message tr w (Dumps POLL) = Inr w' \<and>
        fst (check_if_poll_refreshed sleep True
               (c\<lparr>poll_refresing_state := False, ws := Some w'\<rparr>)) = False)))"
proof -
  have sent: "async_poll_refresh tr POLL c =
      (case ws c of
         None \<Rightarrow> (Raise (AttributeError ''send_message''), c\<lparr>poll_refresing_state := False\<rparr>)
       | Some w \<Rightarrow>
           (case send_message tr w (Dumps POLL) of
              Inl r \<Rightarrow> (Raise (transport_exn r), c\<lparr>poll_refresing_state := False\<rparr>)
            | Inr w' \<Rightarrow> (Return (), c\<lparr>poll_refresing_state := False, ws := Some w'\<rparr>)))"
    by (simp add: async_poll_refresh_def async_send_message_def set_poll_refreshing_state_def
        split: option.splits sum.splits)
  have cancelled: "async_update_data tr POLL sleep c =
      (Raise CancelledError, c\<lparr>poll_refresing_state := False\<rparr>)"
    if "ws c = Some w" "send_message tr w (Dumps POLL) = Inl Cancelled" for w
    using that by (simp add: async_update_data_def sent)
  show ?thesis
  proof (intro conjI impI)
    assume "ws c = None"
    then show "async_update_data tr POLL sleep c =
        (Raise (UpdateFailed (AttributeError ''send_message'')),
         c\<lparr>poll_refresing_state := False\<rparr>)"
      by (simp add: async_update_data_def sent)
  next
    assume "ws c = Some w \<and> send_message tr w (Dumps POLL) = Inl (Failed r)"
    then show "async_update_data tr POLL sleep c =
        (Raise (UpdateFailed (TransportError r)), c\<lparr>poll_refresing_state := False\<rparr>)"
      by (simp add: async_update_data_def sent)
  next
    assume "ws c = Some w \<and> send_message tr w (Dumps POLL) = Inr w'"
    then show "async_update_data tr POLL sleep c =
        (if fst (check_if_poll_refreshed sleep True
                   (c\<lparr>poll_refresing_state := False, ws := Some w'\<rparr>))
         then Return (data (snd (check_if_poll_refreshed sleep True
                   (c\<lparr>poll_refresing_state := False, ws := Some w'\<rparr>))))
         else Raise (UpdateFailed
                (Exception ''Refresh Poll was not completed in timely manner'')),
         snd (check_if_poll_refreshed sleep True
                (c\<lparr>poll_refresing_state := False, ws := Some w'\<rparr>)))"
      by (simp add: async_update_data_def sent split: prod.splits)
  next
    show "(\<exists>e. fst (async_update_data tr POLL sleep c) = Raise (UpdateFailed e)) =
      (ws c = None \<or>
       (\<exists>w r. ws c = Some w \<and> send_message tr w (Dumps POLL) = Inl (Failed r)) \<or>
       (\<exists>w w'. ws c = Some w \<and> send_message tr w (Dumps POLL) = Inr w' \<and>
          fst (check_if_poll_refreshed sleep True
                 (c\<lparr>poll_refresing_state := False, ws := Some w'\<rparr>)) = False))"
    proof (cases "ws c")
      case None
      then show ?thesis by (simp add: async_update_data_def sent)
    next
      case (Some w)
      show ?thesis
      proof (cases "send_message tr w (Dumps POLL)")
        case (Inl x)
        then show ?thesis
          using Some cancelled [OF Some] by (cases x) (simp_all add: async_update_data_def sent)
      next
        case (Inr w')
        with Some show ?thesis
          by (simp add: async_update_data_def sent split: prod.splits)
      qed
    qed
  qed
qed

theorem async_update_data_sequence_witness:
  "async_update_data logging_websocket poll_refresh_command
     (reply_arrives poll_refresh_result 2) listening =
     (Return \<lparr> d_cache = [], d_data = JObj [] \<rparr>,
      listening\<lparr>ws := Some \<lparr> connected = True, sent = [Dumps poll_refresh_command] \<rparr>,
                poll_refresing_state := True\<rparr>) \<and>
   async_update_data logging_websocket poll_refresh_command silence listening =
     (Raise (UpdateFailed (Exception ''Refresh Poll was not completed in timely manner'')),
      listening\<lparr>ws := Some \<lparr> connected = True, sent = [Dumps poll_refresh_command] \<rparr>\<rparr>) \<and>
   async_update_data logging_websocket poll_refresh_command silence
     (listening\<lparr>ws := Some \<lparr> connected = False, sent = [] \<rparr>\<rparr>) =
     (Raise (UpdateFailed (TransportError ''not connected'')),
      listening\<lparr>ws := Some \<lparr> connected = False, sent = [] \<rparr>\<rparr>)"
proof -
  let ?w = "\<lparr> connected = True, sent = [] \<rparr>"
  let ?w' = "\<lparr> connected = True, sent = [Dumps poll_refresh_command] \<rparr>"
  have a: "async_update_data logging_websocket poll_refresh_command
     (reply_arrives poll_refresh_result 2) listening =
     (Return \<lparr> d_cache = [], d_data = JObj [] \<rparr>,
      listening\<lparr>ws := Some ?w', poll_refresing_state := True\<rparr>)"
    using async_update_data_sequence [of listening logging_websocket poll_refresh_command
        "reply_arrives poll_refresh_result 2" ?w _ ?w']
    by (simp add: logging_websocket_def listening_def init_def check_if_poll_refreshed_def
        poll_refreshed_loop.simps reply_arrives_def on_message_def result_block_def
        MESSAGE_TYPES_TO_PROCESS_def MESSAGE_IDS_TO_PROCESS_def poll_refresh_result_def
        set_poll_refreshing_state_def)
  have b: "async_update_data logging_websocket poll_refresh_command silence listening =
     (Raise (UpdateFailed (Exception ''Refresh Poll was not completed in timely manner'')),
      listening\<lparr>ws := Some ?w'\<rparr>)"
    using async_update_data_sequence [of listening logging_websocket poll_refresh_command
        silence ?w _ ?w']
    by (simp add: logging_websocket_def listening_def init_def check_if_poll_refreshed_def
        poll_refreshed_loop.simps silence_def)
  have c: "async_update_data logging_websocket poll_refresh_command silence
     (listening\<lparr>ws := Some \<lparr> connected = False, sent = [] \<rparr>\<rparr>) =
     (Raise (UpdateFailed (TransportError ''not connected'')),
      listening\<lparr>ws := Some \<lparr> connected = False, sent = [] \<rparr>\<rparr>)"
    using async_update_data_sequence [of "listening\<lparr>ws := Some \<lparr> connected = False, sent = [] \<rparr>\<rparr>"
        logging_websocket poll_refresh_command silence "\<lparr> connected = False, sent = [] \<rparr>"
        "''not connected''"]
    by (simp add: logging_websocket_def listening_def init_def)
  from a b c show ?thesis by simp
qed

text \<open>
  C2 as stated fails on the coordinator that \<^verbatim>\<open>__init__\<close> leaves, whose \<^verbatim>\<open>ws\<close> is
  \<^verbatim>\<open>None\<close>: the send raises \<^verbatim>\<open>AttributeError\<close>, which becomes \<^verbatim>\<open>UpdateFailed\<close>, although
  a wait from the coordinator the send left would return \<open>True\<close>.
\<close>

theorem async_update_data_no_websocket_counterexample:
  "fst (async_update_data logging_websocket poll_refresh_command
          (reply_arrives poll_refresh_result 0) (init ''eufy'' 3000)) =
     Raise (UpdateFailed (AttributeError ''send_message'')) \<and>
   fst (check_if_poll_refreshed (reply_arrives poll_refresh_result 0) True
          (snd (async_poll_refresh logging_websocket poll_refresh_command
                  (init ''eufy'' 3000)))) = True"
  by (simp add: async_update_data_def async_poll_refresh_def async_send_message_def
      set_poll_refreshing_state_def init_def check_if_poll_refreshed_def
      poll_refreshed_loop.simps reply_arrives_def on_message_def result_block_def
      MESSAGE_TYPES_TO_PROCESS_def MESSAGE_IDS_TO_PROCESS_def poll_refresh_result_def)

text \<open>
  A cancellation of the task at the awaited send is not turned into \<^verbatim>\<open>UpdateFailed\<close>.
\<close>

lemma async_update_data_cancelled:
  assumes "ws c = Some w" and "send_message tr w (Dumps POLL) = Inl Cancelled"
  shows "async_update_data tr POLL sleep c =
      (Raise CancelledError, c\<lparr>poll_refresing_state := False\<rparr>)"
  using assms
  by (simp add: async_update_data_def async_poll_refresh_def async_send_message_def
      set_poll_refreshing_state_def)

section \<open>The command of a property request\<close>

lemma format_from_plain:
  "CHR ''{'' \<notin> set template \<Longrightarrow> CHR ''}'' \<notin> set template \<Longrightarrow>
   format_from nb arg template = Inr template"
  by (induction nb arg template rule: format_from.induct) (auto simp: prepend_def)

text \<open>
  The first call after the module is loaded sends the command of its device type. A call
  that finds a command without braces in the dictionary sends that command again, whatever
  its device type.
\<close>

lemma get_properties_first_call:
  "async_get_properties_for_device logging_websocket device_type serial_no
     GET_PROPERTIES_MESSAGE listening =
   (Return (),
    [(''command'', JStr (get_device_type_name device_type @ ''.get_properties'')),
     (''serialNumber'', JStr serial_no)],
    listening\<lparr>ws := Some \<lparr> connected = True, sent =
      [Plain (JObj [(''command'', JStr (get_device_type_name device_type @ ''.get_properties'')),
                    (''serialNumber'', JStr serial_no)])] \<rparr>\<rparr>)"
  by (simp add: async_get_properties_for_device_def GET_PROPERTIES_MESSAGE_def str_format_def
      prepend_def async_send_message_def logging_websocket_def listening_def init_def Let_def
      format_from_plain)

lemma get_properties_later_call:
  assumes "map_of message ''command'' = Some (JStr command)"
    and "CHR ''{'' \<notin> set command" and "CHR ''}'' \<notin> set command"
    and "ws c = Some w" and "send_message tr w (Plain (JObj
           (AList.update ''serialNumber'' (JStr serial_no) message))) = Inr w'"
  shows "async_get_properties_for_device tr device_type serial_no message c =
     (Return (), AList.update ''serialNumber'' (JStr serial_no) message, c\<lparr>ws := Some w'\<rparr>)"
  using assms
  by (simp add: async_get_properties_for_device_def str_format_def format_from_plain
      async_send_message_def Let_def update_triv)

text \<open>
  C9 fails on the second call. The first call, for a camera, writes the formatted command
  \<^verbatim>\<open>"device.get_properties"\<close> into the module's dictionary; it has no replacement field
  left, so the second call, for a station, sends \<^verbatim>\<open>"device.get_properties"\<close> again and not
  \<^verbatim>\<open>"station.get_properties"\<close>. The serial number is the one given in both calls. The same
  holds for the metadata request.
\<close>

theorem get_properties_command_sticks:
  "(case async_get_properties_for_device logging_websocket (OTHER 1) ''D1''
           GET_PROPERTIES_MESSAGE listening of
      (r1, message1, c1) \<Rightarrow>
        (case async_get_properties_for_device logging_websocket STATION ''S1'' message1 c1 of
           (r2, message2, c2) \<Rightarrow> (r1, r2, map_option sent (ws c2)))) =
     (Return (), Return (),
      Some [Plain (JObj [(''command'', JStr ''device.get_properties''),
                         (''serialNumber'', JStr ''D1'')]),
            Plain (JObj [(''command'', JStr ''device.get_properties''),
                         (''serialNumber'', JStr ''S1'')])]) \<and>
   (case async_get_properties_metadata_for_device logging_websocket (OTHER 1) ''D1''
           GET_PROPERTIES_METADATA_MESSAGE listening of
      (r1, message1, c1) \<Rightarrow>
        (case async_get_properties_metadata_for_device logging_websocket STATION ''S1''
                message1 c1 of
           (r2, message2, c2) \<Rightarrow> (r1, r2, map_option sent (ws c2)))) =
     (Return (), Return (),
      Some [Plain (JObj [(''command'', JStr ''device.get_properties_metadata''),
                         (''serialNumber'', JStr ''D1'')]),
            Plain (JObj [(''command'', JStr ''device.get_properties_metadata''),
                         (''serialNumber'', JStr ''S1'')])])"
  by (simp add: async_get_properties_for_device_def async_get_properties_metadata_for_device_def
      GET_PROPERTIES_MESSAGE_def GET_PROPERTIES_METADATA_MESSAGE_def str_format_def
      prepend_def async_send_message_def logging_websocket_def listening_def init_def Let_def)


end
